theory Spec2Isabelle
  imports Main "HOL-Library.AList"
begin

section \<open>Python values, dictionaries and the object store\<close>

text \<open>
  The trainer modules of kooplearn are thin wiring around callables that the caller
  supplies (model classes, optimizer and scheduler factories, a loss function). The
  embedding keeps those callables as parameters and models what the repository's own
  code does with them: dictionary iteration and insertion, object construction, attribute
  assignment, and the exceptions Python raises on the way.

  A Python \<open>dict\<close> is an association list in insertion order; a well-formed one has
  pairwise distinct keys. Keys are strings throughout (the dictionaries are unpacked as
  keyword arguments and formatted into f-strings).
\<close>

type_synonym 'a dict = "(string \<times> 'a) list"

text \<open>
  The exceptions of the embedding. \<open>Raised\<close> stands for whatever a caller-supplied
  callable raises.
\<close>

datatype error =
    AttributeError
  | KeyError string
  | NotImplementedError
  | TypeError
  | ValueError
  | Raised string

text \<open>
  A value stored in a hyperparameter dictionary is either a primitive of some type \<open>'v\<close>
  or a reference to an object (the scheduler that \<open>configure_optimizers\<close> puts under the
  key \<open>scheduler\<close>).
\<close>

datatype 'v pyval = Prim 'v | ObjRef nat

text \<open>
  Dictionaries and constructed objects (networks, optimizers, schedulers) live in a store
  and are passed by reference, as in Python: \<open>x is y\<close> is equality of addresses. Addresses
  below the counters are allocated; allocation takes the next free address.
\<close>

record ('v, 'o) heap =
  dicts :: "nat \<Rightarrow> 'v pyval dict"
  dict_count :: nat
  objs :: "nat \<Rightarrow> 'o"
  obj_count :: nat

definition alloc_obj :: "('v, 'o) heap \<Rightarrow> 'o \<Rightarrow> nat \<times> ('v, 'o) heap" where
  "alloc_obj h ob = (obj_count h, h\<lparr>objs := (objs h)(obj_count h := ob), obj_count := Suc (obj_count h)\<rparr>)"

definition alloc_dict :: "('v, 'o) heap \<Rightarrow> 'v pyval dict \<Rightarrow> nat \<times> ('v, 'o) heap" where
  "alloc_dict h d = (dict_count h, h\<lparr>dicts := (dicts h)(dict_count h := d), dict_count := Suc (dict_count h)\<rparr>)"

text \<open>Sequencing of fallible steps: the first exception ends the computation.\<close>

definition on_ok :: "error + 'a \<Rightarrow> ('a \<Rightarrow> error + 'b) \<Rightarrow> error + 'b" where
  "on_ok r f = (case r of Inl e \<Rightarrow> Inl e | Inr x \<Rightarrow> f x)"

text \<open>
  \<open>d.items()\<close> on an argument that may be \<open>None\<close>: \<open>None\<close> has no attribute \<open>items\<close>.
\<close>

definition items :: "('v, 'o) heap \<Rightarrow> nat option \<Rightarrow> error + 'v pyval dict" where
  "items h r = (case r of None \<Rightarrow> Inl AttributeError | Some a \<Rightarrow> Inr (dicts h a))"

text \<open>
  \<open>f(**d)\<close>: the keyword arguments are the dictionary's entries; \<open>None\<close> is not a mapping.
\<close>

definition kwargs :: "('v, 'o) heap \<Rightarrow> nat option \<Rightarrow> error + 'v pyval dict" where
  "kwargs h r = (case r of None \<Rightarrow> Inl TypeError | Some a \<Rightarrow> Inr (dicts h a))"

text \<open>\<open>d.copy()\<close>: a new dictionary with the same entries.\<close>

definition copy :: "('v, 'o) heap \<Rightarrow> nat option \<Rightarrow> error + nat \<times> ('v, 'o) heap" where
  "copy h r = (case r of None \<Rightarrow> Inl AttributeError | Some a \<Rightarrow> Inr (alloc_dict h (dicts h a)))"

text \<open>\<open>d[k] = v\<close> on a dictionary in the store.\<close>

definition setitem :: "('v, 'o) heap \<Rightarrow> nat \<Rightarrow> string \<Rightarrow> 'v pyval \<Rightarrow> ('v, 'o) heap" where
  "setitem h a k v = h\<lparr>dicts := (dicts h)(a := AList.update k v (dicts h a))\<rparr>"

text \<open>\<open>for k, v in kvs: body\<close>, where the body may raise.\<close>

fun for_items :: "'a dict \<Rightarrow> (string \<Rightarrow> 'a \<Rightarrow> 's \<Rightarrow> error + 's) \<Rightarrow> 's \<Rightarrow> error + 's" where
  "for_items [] body s = Inr s"
| "for_items ((k, v) # kvs) body s =
     (case body k v s of Inl e \<Rightarrow> Inl e | Inr s' \<Rightarrow> for_items kvs body s')"

text \<open>\<open>d[k]\<close>: a missing key raises \<open>KeyError\<close>.\<close>

definition getitem :: "'a dict \<Rightarrow> string \<Rightarrow> error + 'a" where
  "getitem d k = (case map_of d k of None \<Rightarrow> Inl (KeyError k) | Some v \<Rightarrow> Inr v)"

section \<open>The trainer modules\<close>

text \<open>
  The attributes that \<open>DPNetsModule.__init__\<close> and \<open>KoopmanDNNModule.__init__\<close> both assign.
  Callables are functions that may raise; a model class builds an object from its keyword
  arguments, an optimizer factory from the module's parameters and its keyword arguments,
  a scheduler factory from the optimizer (by reference) and its keyword arguments.
  \<open>model\<close> and the dictionaries are references into the store; a parameter that
  defaults to \<open>None\<close> is an \<open>option\<close>.
\<close>

record ('v, 'o, 'ps, 't) TrainerModule =
  hparams :: "'v pyval dict"
  model :: nat
  optimizer_fn :: "'ps \<Rightarrow> 'v pyval dict \<Rightarrow> error + 'o"
  scheduler_fn :: "(nat \<Rightarrow> 'v pyval dict \<Rightarrow> error + 'o) option"
  optimizer_hyperparameters :: nat
  scheduler_hyperparameters :: "nat option"
  scheduler_config :: "nat option"
  loss_fn :: "'t \<Rightarrow> 't \<Rightarrow> error + 't"

record ('v, 'o, 'ps, 't) DPNetsModule = "('v, 'o, 'ps, 't) TrainerModule" +
  model_2 :: nat

record ('v, 'o, 'ps, 't) KoopmanDNNModule = "('v, 'o, 'ps, 't) TrainerModule" +
  koopman_estimator :: "nat option"
  decoder :: "nat option"

subsection \<open>Construction\<close>

text \<open>
  \<open>DPNetsModule.__init__\<close>. \<open>self.hparams\<close> starts empty; five loops insert the entries
  of the five dictionaries, the first under the keys as they are, the others under
  \<open>model_2_\<close>, \<open>optim_\<close>, \<open>sched_\<close> and again \<open>sched_\<close>. Then the networks are built:
  \<open>model_2\<close> is a new object when \<open>model_class_2\<close> is given and the reference \<open>model\<close>
  itself otherwise (instantiating a class allocates: the object it builds gets the next
  free address). (\<open>save_hyperparameters()\<close> belongs to the training framework and is
  not part of the sources; \<open>hparams\<close> is the mapping as the loops leave it.)
  A parameter whose name is also an attribute carries a prime.
\<close>

definition DPNetsModule_init ::
  "('v pyval dict \<Rightarrow> error + 'o) \<Rightarrow> nat
    \<Rightarrow> ('ps \<Rightarrow> 'v pyval dict \<Rightarrow> error + 'o) \<Rightarrow> nat
    \<Rightarrow> ('t \<Rightarrow> 't \<Rightarrow> error + 't)
    \<Rightarrow> (nat \<Rightarrow> 'v pyval dict \<Rightarrow> error + 'o) option \<Rightarrow> nat option \<Rightarrow> nat option
    \<Rightarrow> ('v pyval dict \<Rightarrow> error + 'o) option \<Rightarrow> nat option
    \<Rightarrow> ('v, 'o) heap
    \<Rightarrow> error + ('v, 'o, 'ps, 't) DPNetsModule \<times> ('v, 'o) heap" where
  "DPNetsModule_init model_class model_hyperparameters optimizer_fn' optimizer_hyperparameters'
      loss_fn' scheduler_fn' scheduler_hyperparameters' scheduler_config'
      model_class_2 model_hyperparameters_2 h =
     on_ok (for_items (dicts h model_hyperparameters)
              (\<lambda>k v hp. Inr (AList.update k v hp)) []) (\<lambda>hp.
     on_ok (items h model_hyperparameters_2) (\<lambda>kvs.
     on_ok (for_items kvs (\<lambda>k v hp. Inr (AList.update (''model_2_'' @ k) v hp)) hp) (\<lambda>hp.
     on_ok (for_items (dicts h optimizer_hyperparameters')
              (\<lambda>k v hp. Inr (AList.update (''optim_'' @ k) v hp)) hp) (\<lambda>hp.
     on_ok (items h scheduler_hyperparameters') (\<lambda>kvs.
     on_ok (for_items kvs (\<lambda>k v hp. Inr (AList.update (''sched_'' @ k) v hp)) hp) (\<lambda>hp.
     on_ok (items h scheduler_config') (\<lambda>kvs.
     on_ok (for_items kvs (\<lambda>k v hp. Inr (AList.update (''sched_'' @ k) v hp)) hp) (\<lambda>hp.
     on_ok (model_class (dicts h model_hyperparameters)) (\<lambda>net.
     case alloc_obj h net of (model', h1) \<Rightarrow>
     on_ok (case model_class_2 of
              Some cls \<Rightarrow>
                on_ok (kwargs h1 model_hyperparameters_2) (\<lambda>kw.
                on_ok (cls kw) (\<lambda>net_2. Inr (alloc_obj h1 net_2)))
            | None \<Rightarrow> Inr (model', h1)) (\<lambda>(model_2', h2).
     Inr (\<lparr>hparams = hp, model = model', optimizer_fn = optimizer_fn',
            scheduler_fn = scheduler_fn',
            optimizer_hyperparameters = optimizer_hyperparameters',
            scheduler_hyperparameters = scheduler_hyperparameters',
            scheduler_config = scheduler_config', loss_fn = loss_fn',
            model_2 = model_2'\<rparr>, h2)))))))))))"

text \<open>
  \<open>KoopmanDNNModule.__init__\<close>. The body of the first loop is
  \<open>self.hparamsxz[k] = v\<close>: no attribute \<open>hparamsxz\<close> is defined anywhere, so evaluating
  \<open>self.hparamsxz\<close> raises \<open>AttributeError\<close> the first time the body runs. The other loops
  insert under \<open>optim_\<close>, \<open>koop_\<close>, \<open>dec_\<close>, \<open>sched_\<close> and \<open>sched_\<close>.
\<close>

definition KoopmanDNNModule_init ::
  "('v pyval dict \<Rightarrow> error + 'o) \<Rightarrow> nat
    \<Rightarrow> ('ps \<Rightarrow> 'v pyval dict \<Rightarrow> error + 'o) \<Rightarrow> nat
    \<Rightarrow> ('t \<Rightarrow> 't \<Rightarrow> error + 't)
    \<Rightarrow> nat option \<Rightarrow> nat option \<Rightarrow> nat option \<Rightarrow> nat option
    \<Rightarrow> (nat \<Rightarrow> 'v pyval dict \<Rightarrow> error + 'o) option \<Rightarrow> nat option \<Rightarrow> nat option
    \<Rightarrow> ('v, 'o) heap
    \<Rightarrow> error + ('v, 'o, 'ps, 't) KoopmanDNNModule \<times> ('v, 'o) heap" where
  "KoopmanDNNModule_init model_class model_hyperparameters optimizer_fn' optimizer_hyperparameters'
      loss_fn' koopman_estimator' koopman_estimator_hyperparameters decoder' decoder_hyperparameters
      scheduler_fn' scheduler_hyperparameters' scheduler_config' h =
     on_ok (for_items (dicts h model_hyperparameters)
              (\<lambda>k v hp. Inl AttributeError) []) (\<lambda>hp.
     on_ok (for_items (dicts h optimizer_hyperparameters')
              (\<lambda>k v hp. Inr (AList.update (''optim_'' @ k) v hp)) hp) (\<lambda>hp.
     on_ok (items h koopman_estimator_hyperparameters) (\<lambda>kvs.
     on_ok (for_items kvs (\<lambda>k v hp. Inr (AList.update (''koop_'' @ k) v hp)) hp) (\<lambda>hp.
     on_ok (items h decoder_hyperparameters) (\<lambda>kvs.
     on_ok (for_items kvs (\<lambda>k v hp. Inr (AList.update (''dec_'' @ k) v hp)) hp) (\<lambda>hp.
     on_ok (items h scheduler_hyperparameters') (\<lambda>kvs.
     on_ok (for_items kvs (\<lambda>k v hp. Inr (AList.update (''sched_'' @ k) v hp)) hp) (\<lambda>hp.
     on_ok (items h scheduler_config') (\<lambda>kvs.
     on_ok (for_items kvs (\<lambda>k v hp. Inr (AList.update (''sched_'' @ k) v hp)) hp) (\<lambda>hp.
     on_ok (model_class (dicts h model_hyperparameters)) (\<lambda>net.
     case alloc_obj h net of (model', h1) \<Rightarrow>
     Inr (\<lparr>hparams = hp, model = model', optimizer_fn = optimizer_fn',
            scheduler_fn = scheduler_fn',
            optimizer_hyperparameters = optimizer_hyperparameters',
            scheduler_hyperparameters = scheduler_hyperparameters',
            scheduler_config = scheduler_config', loss_fn = loss_fn',
            koopman_estimator = koopman_estimator', decoder = decoder'\<rparr>, h1))))))))))))"

subsection \<open>Optimizer and scheduler\<close>

text \<open>
  The two shapes \<open>configure_optimizers\<close> returns: the optimizer alone, or a pair of lists,
  the optimizers and the scheduler configurations (references to dictionaries).
\<close>

datatype configured = Optimizer nat | OptimizersAndSchedulers "nat list" "nat list"

text \<open>
  \<open>configure_optimizers\<close>, written twice in the sources with the same body.
  \<open>self.parameters()\<close> is inherited from the framework; its value is the argument
  \<open>parameters\<close>.
\<close>

definition DPNetsModule_configure_optimizers ::
  "'ps \<Rightarrow> ('v, 'o, 'ps, 't) DPNetsModule \<Rightarrow> ('v, 'o) heap
    \<Rightarrow> error + configured \<times> ('v, 'o) heap" where
  "DPNetsModule_configure_optimizers parameters self h =
     on_ok (optimizer_fn self parameters (dicts h (optimizer_hyperparameters self))) (\<lambda>opt.
     case alloc_obj h opt of (optimizer, h1) \<Rightarrow>
     (case scheduler_fn self of
        Some sched_fn \<Rightarrow>
          on_ok (kwargs h1 (scheduler_hyperparameters self)) (\<lambda>kw.
          on_ok (sched_fn optimizer kw) (\<lambda>sch.
          case alloc_obj h1 sch of (scheduler, h2) \<Rightarrow>
          on_ok (copy h2 (scheduler_config self)) (\<lambda>(lr_scheduler_config, h3).
          Inr (OptimizersAndSchedulers [optimizer] [lr_scheduler_config],
               setitem h3 lr_scheduler_config ''scheduler'' (ObjRef scheduler)))))
      | None \<Rightarrow> Inr (Optimizer optimizer, h1)))"

definition KoopmanDNNModule_configure_optimizers ::
  "'ps \<Rightarrow> ('v, 'o, 'ps, 't) KoopmanDNNModule \<Rightarrow> ('v, 'o) heap
    \<Rightarrow> error + configured \<times> ('v, 'o) heap" where
  "KoopmanDNNModule_configure_optimizers parameters self h =
     on_ok (optimizer_fn self parameters (dicts h (optimizer_hyperparameters self))) (\<lambda>opt.
     case alloc_obj h opt of (optimizer, h1) \<Rightarrow>
     (case scheduler_fn self of
        Some sched_fn \<Rightarrow>
          on_ok (kwargs h1 (scheduler_hyperparameters self)) (\<lambda>kw.
          on_ok (sched_fn optimizer kw) (\<lambda>sch.
          case alloc_obj h1 sch of (scheduler, h2) \<Rightarrow>
          on_ok (copy h2 (scheduler_config self)) (\<lambda>(lr_scheduler_config, h3).
          Inr (OptimizersAndSchedulers [optimizer] [lr_scheduler_config],
               setitem h3 lr_scheduler_config ''scheduler'' (ObjRef scheduler)))))
      | None \<Rightarrow> Inr (Optimizer optimizer, h1)))"

subsection \<open>DPNetsModule: forward and the step methods\<close>

text \<open>
  Calling a network: \<open>call\<close> says what an object returns on an input mapping and what
  state it is left in (a forward pass may update the network's own state); the store
  keeps the new state at the same address.
\<close>

definition call_obj ::
  "('o \<Rightarrow> 't dict \<Rightarrow> error + 't dict \<times> 'o) \<Rightarrow> ('v, 'o) heap \<Rightarrow> nat \<Rightarrow> 't dict
    \<Rightarrow> error + 't dict \<times> ('v, 'o) heap" where
  "call_obj call h a d =
     on_ok (call (objs h a) d) (\<lambda>(out, ob). Inr (out, h\<lparr>objs := (objs h)(a := ob)\<rparr>))"

definition DPNetsModule_forward ::
  "('o \<Rightarrow> 't dict \<Rightarrow> error + 't dict \<times> 'o) \<Rightarrow> ('v, 'o, 'ps, 't) DPNetsModule
    \<Rightarrow> ('v, 'o) heap \<Rightarrow> 't dict \<Rightarrow> error + 't dict \<times> ('v, 'o) heap" where
  "DPNetsModule_forward call self h batch = call_obj call h (model self) batch"

definition DPNetsModule_base_step ::
  "('o \<Rightarrow> 't dict \<Rightarrow> error + 't dict \<times> 'o) \<Rightarrow> ('v, 'o, 'ps, 't) DPNetsModule
    \<Rightarrow> ('v, 'o) heap \<Rightarrow> 't dict \<Rightarrow> int \<Rightarrow> error + 't dict \<times> ('v, 'o) heap" where
  "DPNetsModule_base_step call self h batch batch_idx =
     on_ok (getitem batch ''x_value'') (\<lambda>x.
     case [(''x_value'', x)] of data_x \<Rightarrow>
     on_ok (getitem batch ''y_value'') (\<lambda>y.
     case [(''x_value'', y)] of data_y \<Rightarrow>
     on_ok (call_obj call h (model self) data_x) (\<lambda>(model_output_x, h1).
     on_ok (getitem model_output_x ''x_encoded'') (\<lambda>x_encoded.
     on_ok (call_obj call h1 (model_2 self) data_y) (\<lambda>(model_output_y, h2).
     on_ok (getitem model_output_y ''x_encoded'') (\<lambda>y_encoded.
     on_ok (loss_fn self x_encoded y_encoded) (\<lambda>loss.
     Inr ([(''loss'', loss)], h2))))))))"

definition DPNetsModule_training_step ::
  "('o \<Rightarrow> 't dict \<Rightarrow> error + 't dict \<times> 'o) \<Rightarrow> ('v, 'o, 'ps, 't) DPNetsModule
    \<Rightarrow> ('v, 'o) heap \<Rightarrow> 't dict \<Rightarrow> int \<Rightarrow> error + 't dict \<times> ('v, 'o) heap" where
  "DPNetsModule_training_step call self h train_batch batch_idx =
     on_ok (DPNetsModule_base_step call self h train_batch batch_idx) (\<lambda>outputs. Inr outputs)"

definition DPNetsModule_validation_step ::
  "('o \<Rightarrow> 't dict \<Rightarrow> error + 't dict \<times> 'o) \<Rightarrow> ('v, 'o, 'ps, 't) DPNetsModule
    \<Rightarrow> ('v, 'o) heap \<Rightarrow> 't dict \<Rightarrow> int \<Rightarrow> error + 't dict \<times> ('v, 'o) heap" where
  "DPNetsModule_validation_step call self h valid_batch batch_idx =
     on_ok (DPNetsModule_base_step call self h valid_batch batch_idx) (\<lambda>outputs. Inr outputs)"

subsection \<open>KoopmanDNNModule: forward and the step methods\<close>

definition KoopmanDNNModule_forward ::
  "('o \<Rightarrow> 't dict \<Rightarrow> error + 't dict \<times> 'o) \<Rightarrow> ('v, 'o, 'ps, 't) KoopmanDNNModule
    \<Rightarrow> ('v, 'o) heap \<Rightarrow> 't dict \<Rightarrow> error + 't dict \<times> ('v, 'o) heap" where
  "KoopmanDNNModule_forward call self h batch = call_obj call h (model self) batch"

text \<open>\<open>base_step\<close> is \<open>raise NotImplementedError\<close>; the three step hooks call it and return
  what it returns.\<close>

definition KoopmanDNNModule_base_step ::
  "('v, 'o, 'ps, 't) KoopmanDNNModule \<Rightarrow> ('v, 'o) heap \<Rightarrow> 't dict \<Rightarrow> int
    \<Rightarrow> error + ('t dict \<times> ('v, 'o) heap)" where
  "KoopmanDNNModule_base_step self h batch batch_idx = Inl NotImplementedError"

definition KoopmanDNNModule_training_step ::
  "('v, 'o, 'ps, 't) KoopmanDNNModule \<Rightarrow> ('v, 'o) heap \<Rightarrow> 't dict \<Rightarrow> int
    \<Rightarrow> error + ('t dict \<times> ('v, 'o) heap)" where
  "KoopmanDNNModule_training_step self h train_batch batch_idx =
     on_ok (KoopmanDNNModule_base_step self h train_batch batch_idx) (\<lambda>outputs. Inr outputs)"

definition KoopmanDNNModule_validation_step ::
  "('v, 'o, 'ps, 't) KoopmanDNNModule \<Rightarrow> ('v, 'o) heap \<Rightarrow> 't dict \<Rightarrow> int
    \<Rightarrow> error + ('t dict \<times> ('v, 'o) heap)" where
  "KoopmanDNNModule_validation_step self h valid_batch batch_idx =
     on_ok (KoopmanDNNModule_base_step self h valid_batch batch_idx) (\<lambda>outputs. Inr outputs)"

definition KoopmanDNNModule_test_step ::
  "('v, 'o, 'ps, 't) KoopmanDNNModule \<Rightarrow> ('v, 'o) heap \<Rightarrow> 't dict \<Rightarrow> int
    \<Rightarrow> error + ('t dict \<times> ('v, 'o) heap)" where
  "KoopmanDNNModule_test_step self h test_batch batch_idx =
     on_ok (KoopmanDNNModule_base_step self h test_batch batch_idx) (\<lambda>outputs. Inr outputs)"

section \<open>Feature maps\<close>

text \<open>
  A NumPy array is its shape and its elements in row-major order; the element type is
  left open, since nothing here computes with the elements. \<open>np.atleast_2d\<close> views a
  scalar as shape \<open>(1, 1)\<close> and a vector of length \<open>k\<close> as shape \<open>(1, k)\<close> and returns
  arrays of two or more dimensions as they are. \<open>np.concatenate(arrs, axis=-1)\<close> raises
  \<open>ValueError\<close> for an empty sequence, for a zero-dimensional array, and when the
  arrays differ in another dimension than the last; otherwise the result has the common
  leading dimensions, the sum of the last dimensions, and as its \<open>r\<close>-th row the
  \<open>r\<close>-th rows of the arrays one after the other.
\<close>

record 'a ndarray =
  shape :: "nat list"
  data :: "'a list"

definition atleast_2d :: "'a ndarray \<Rightarrow> 'a ndarray" where
  "atleast_2d a =
     (case shape a of
        [] \<Rightarrow> a\<lparr>shape := [1, 1]\<rparr>
      | [k] \<Rightarrow> a\<lparr>shape := [1, k]\<rparr>
      | _ \<Rightarrow> a)"




text \<open>\<open>IdentityFeatureMap.__call__\<close>.\<close>

definition IdentityFeatureMap_call :: "'a ndarray \<Rightarrow> 'a ndarray" where
  "IdentityFeatureMap_call X = atleast_2d X"




section \<open>Notions used to state the properties\<close>

text \<open>
  The entries of a mapping under a prefix, and the entries of a sequence of (prefix,
  mapping) pairs in the order in which the constructor's loops insert them.
\<close>

definition prefixed :: "string \<Rightarrow> 'a dict \<Rightarrow> 'a dict" where
  "prefixed p kvs = map (\<lambda>(k, v). (p @ k, v)) kvs"

definition inserts :: "(string \<times> 'a dict) list \<Rightarrow> 'a dict" where
  "inserts pds = concat (map (\<lambda>(p, d). prefixed p d) pds)"

definition DPNetsModule_inserts ::
  "('v, 'o) heap \<Rightarrow> nat \<Rightarrow> nat \<Rightarrow> nat \<Rightarrow> nat \<Rightarrow> nat \<Rightarrow> 'v pyval dict" where
  "DPNetsModule_inserts h mh mh2 oh sh sc =
     inserts [([], dicts h mh), (''model_2_'', dicts h mh2), (''optim_'', dicts h oh),
              (''sched_'', dicts h sh), (''sched_'', dicts h sc)]"

definition KoopmanDNNModule_inserts ::
  "('v, 'o) heap \<Rightarrow> nat \<Rightarrow> nat \<Rightarrow> nat \<Rightarrow> nat \<Rightarrow> nat \<Rightarrow> nat \<Rightarrow> 'v pyval dict" where
  "KoopmanDNNModule_inserts h mh oh kh dh sh sc =
     inserts [([], dicts h mh), (''optim_'', dicts h oh), (''koop_'', dicts h kh),
              (''dec_'', dicts h dh), (''sched_'', dicts h sh), (''sched_'', dicts h sc)]"

text \<open>One loop of a constructor, and all of them in sequence, as folds.\<close>

definition insert_loop :: "string \<Rightarrow> 'a dict \<Rightarrow> 'a dict \<Rightarrow> 'a dict" where
  "insert_loop p kvs hp = fold (\<lambda>(k, v). AList.update (p @ k) v) kvs hp"

definition insert_loops :: "(string \<times> 'a dict) list \<Rightarrow> 'a dict \<Rightarrow> 'a dict" where
  "insert_loops pds hp = fold (\<lambda>(p, d). insert_loop p d) pds hp"

text \<open>
  The store after a call of \<open>configure_optimizers\<close>: with the new optimizer, and with
  the new optimizer, scheduler and configuration dictionary (a copy of dictionary \<open>cfg\<close>
  with \<open>scheduler\<close> set).
\<close>

definition with_optimizer :: "('v, 'o) heap \<Rightarrow> 'o \<Rightarrow> ('v, 'o) heap" where
  "with_optimizer h opt = h\<lparr>objs := (objs h)(obj_count h := opt), obj_count := Suc (obj_count h)\<rparr>"

definition with_scheduler :: "('v, 'o) heap \<Rightarrow> 'o \<Rightarrow> 'o \<Rightarrow> nat \<Rightarrow> ('v, 'o) heap" where
  "with_scheduler h opt sch cfg =
     h\<lparr>objs := (objs h)(obj_count h := opt, Suc (obj_count h) := sch),
       obj_count := Suc (Suc (obj_count h)),
       dicts := (dicts h)(dict_count h :=
         AList.update ''scheduler'' (ObjRef (Suc (obj_count h))) (dicts h cfg)),
       dict_count := Suc (dict_count h)\<rparr>"

text \<open>
  A network is deterministic when a forward pass, whatever it does to the network's
  state, does not change what the network returns on any input.
\<close>

definition deterministic :: "('o \<Rightarrow> 't dict \<Rightarrow> error + 't dict \<times> 'o) \<Rightarrow> bool" where
  "deterministic call \<longleftrightarrow>
     (\<forall>ob d out ob'. call ob d = Inr (out, ob') \<longrightarrow>
        (\<forall>d'. map_sum id fst (call ob' d') = map_sum id fst (call ob d')))"

text \<open>
  The states a \<open>DPNetsModule\<close> and the store go through after construction: each rule is
  one method call that returns. No method assigns to an attribute of \<open>self\<close>; the calls
  change the store only.
\<close>

inductive DPNetsModule_run ::
  "('o \<Rightarrow> 't dict \<Rightarrow> error + 't dict \<times> 'o)
    \<Rightarrow> ('v, 'o, 'ps, 't) DPNetsModule \<times> ('v, 'o) heap
    \<Rightarrow> ('v, 'o, 'ps, 't) DPNetsModule \<times> ('v, 'o) heap \<Rightarrow> bool"
  for call :: "'o \<Rightarrow> 't dict \<Rightarrow> error + 't dict \<times> 'o"
where
  constructed: "DPNetsModule_run call s s"
| configure_optimizers:
    "DPNetsModule_run call s (self, h) \<Longrightarrow>
     DPNetsModule_configure_optimizers ps self h = Inr (r, h') \<Longrightarrow>
     DPNetsModule_run call s (self, h')"
| training_step:
    "DPNetsModule_run call s (self, h) \<Longrightarrow>
     DPNetsModule_training_step call self h batch batch_idx = Inr (outputs, h') \<Longrightarrow>
     DPNetsModule_run call s (self, h')"
| validation_step:
    "DPNetsModule_run call s (self, h) \<Longrightarrow>
     DPNetsModule_validation_step call self h batch batch_idx = Inr (outputs, h') \<Longrightarrow>
     DPNetsModule_run call s (self, h')"
| forward:
    "DPNetsModule_run call s (self, h) \<Longrightarrow>
     DPNetsModule_forward call self h batch = Inr (outputs, h') \<Longrightarrow>
     DPNetsModule_run call s (self, h')"
| base_step:
    "DPNetsModule_run call s (self, h) \<Longrightarrow>
     DPNetsModule_base_step call self h batch batch_idx = Inr (outputs, h') \<Longrightarrow>
     DPNetsModule_run call s (self, h')"


subsection \<open>Example inputs\<close>

text \<open>
  A store with six dictionaries and no objects. The model's hyperparameters are
  \<open>{'width': 8}\<close>; the scheduler's hyperparameters and the scheduler configuration
  both have the key \<open>interval\<close>; dictionary 5 is empty.
\<close>

definition example_heap :: "(int, nat) heap" where
  "example_heap =
     \<lparr>dicts = (\<lambda>_. [])
        (0 := [(''width'', Prim 8)],
         1 := [(''width'', Prim 4)],
         2 := [(''lr'', Prim 1)],
         3 := [(''gamma'', Prim 2), (''interval'', Prim 3)],
         4 := [(''interval'', Prim 5), (''monitor'', Prim 0)]),
      dict_count = 6, objs = (\<lambda>_. 0), obj_count = 0\<rparr>"

text \<open>
  A model class whose objects are natural numbers (the number of keyword arguments
  received), optimizer and scheduler factories that never raise, and the difference as
  loss.
\<close>

definition example_class :: "int pyval dict \<Rightarrow> error + nat" where
  "example_class kw = Inr (length kw)"

definition example_optimizer_fn :: "unit \<Rightarrow> int pyval dict \<Rightarrow> error + nat" where
  "example_optimizer_fn ps kw = Inr (10 + length kw)"

definition example_scheduler_fn :: "nat \<Rightarrow> int pyval dict \<Rightarrow> error + nat" where
  "example_scheduler_fn optimizer kw = Inr (20 + optimizer + length kw)"

definition example_loss_fn :: "int \<Rightarrow> int \<Rightarrow> error + int" where
  "example_loss_fn x y = Inr (x - y)"

text \<open>
  A network whose state is a number: its parity fixes the factor applied to the input
  (1 or 2), and every forward pass adds 2 to it.
\<close>

definition example_call :: "nat \<Rightarrow> int dict \<Rightarrow> error + int dict \<times> nat" where
  "example_call ob d =
     (case map_of d ''x_value'' of
        None \<Rightarrow> Inl (KeyError ''x_value'')
      | Some t \<Rightarrow> Inr ([(''x_encoded'', t * (1 + int (ob mod 2)))], ob + 2))"




section \<open>Properties\<close>

subsection \<open>The constructor's loops\<close>

lemma for_items_update:
  "for_items kvs (\<lambda>k v hp. Inr (AList.update (p @ k) v hp)) hp = Inr (insert_loop p kvs hp)"
  unfolding insert_loop_def by (induction kvs arbitrary: hp) auto

lemma for_items_update_plain:
  "for_items kvs (\<lambda>k v hp. Inr (AList.update k v hp)) hp = Inr (insert_loop [] kvs hp)"
  using for_items_update [of kvs "[]" hp] by simp

lemma for_items_raise:
  "for_items kvs (\<lambda>k v hp. Inl e) hp = (if kvs = [] then Inr hp else Inl e)"
  by (cases kvs) auto

lemma prefixed_Nil: "prefixed [] kvs = kvs"
  by (simp add: prefixed_def)

lemma update_fresh: "k \<notin> fst ` set al \<Longrightarrow> AList.update k v al = al @ [(k, v)]"
  by (induction al) auto

text \<open>With no key inserted twice, a loop appends its entries in order.\<close>

lemma insert_loop_distinct:
  "distinct (map fst (hp @ prefixed p kvs)) \<Longrightarrow> insert_loop p kvs hp = hp @ prefixed p kvs"
proof (induction kvs arbitrary: hp)
  case Nil
  then show ?case by (simp add: prefixed_def insert_loop_def)
next
  case (Cons kv kvs)
  obtain k v where kv: "kv = (k, v)" by (cases kv)
  from Cons.prems have fresh: "p @ k \<notin> fst ` set hp"
    by (auto simp: kv prefixed_def)
  from Cons.prems have "distinct (map fst ((hp @ [(p @ k, v)]) @ prefixed p kvs))"
    by (auto simp: kv prefixed_def)
  then have "insert_loop p kvs (hp @ [(p @ k, v)]) = (hp @ [(p @ k, v)]) @ prefixed p kvs"
    by (rule Cons.IH)
  then show ?case
    by (simp add: kv update_fresh [OF fresh] prefixed_def insert_loop_def)
qed

lemma distinct_fst_append_left: "distinct (map fst (xs @ ys)) \<Longrightarrow> distinct (map fst xs)"
  by simp

lemma insert_loops_distinct:
  "distinct (map fst (hp @ inserts pds)) \<Longrightarrow> insert_loops pds hp = hp @ inserts pds"
proof (induction pds arbitrary: hp)
  case Nil
  then show ?case by (simp add: insert_loops_def inserts_def)
next
  case (Cons pd pds)
  obtain p d where pd: "pd = (p, d)" by (cases pd)
  from Cons.prems have all: "distinct (map fst ((hp @ prefixed p d) @ inserts pds))"
    by (simp add: pd inserts_def)
  then have "distinct (map fst (hp @ prefixed p d))"
    by (rule distinct_fst_append_left)
  then have step: "insert_loop p d hp = hp @ prefixed p d"
    by (rule insert_loop_distinct)
  from all have "insert_loops pds (hp @ prefixed p d) = (hp @ prefixed p d) @ inserts pds"
    by (rule Cons.IH)
  then show ?case
    by (simp add: pd step insert_loops_def inserts_def)
qed







subsection \<open>What the constructors return\<close>

lemma DPNetsModule_init_Inr:
  assumes "DPNetsModule_init mc mh ofn oh lf sf sh sc mc2 mh2 h = Inr (m, h')"
  shows "\<exists>a2 a4 a5. mh2 = Some a2 \<and> sh = Some a4 \<and> sc = Some a5 \<and>
     hparams m = insert_loops [([], dicts h mh), (''model_2_'', dicts h a2),
       (''optim_'', dicts h oh), (''sched_'', dicts h a4), (''sched_'', dicts h a5)] []"
  using assms unfolding DPNetsModule_init_def for_items_update for_items_update_plain
  by (auto simp: on_ok_def items_def kwargs_def alloc_obj_def insert_loops_def
      split: option.splits sum.splits prod.splits)

lemma KoopmanDNNModule_init_Inr:
  assumes "KoopmanDNNModule_init mc mh ofn oh lf ke kh de dh sf sh sc h = Inr (m, h')"
  shows "dicts h mh = [] \<and> (\<exists>a3 a3' a4 a5. kh = Some a3 \<and> dh = Some a3' \<and> sh = Some a4 \<and> sc = Some a5 \<and>
     hparams m = insert_loops [([], dicts h mh), (''optim_'', dicts h oh), (''koop_'', dicts h a3),
       (''dec_'', dicts h a3'), (''sched_'', dicts h a4), (''sched_'', dicts h a5)] [])"
  using assms unfolding KoopmanDNNModule_init_def for_items_update for_items_raise
  by (auto simp: on_ok_def items_def kwargs_def alloc_obj_def insert_loops_def insert_loop_def
      split: option.splits sum.splits prod.splits if_splits)

text \<open>
  The result of \<open>DPNetsModule.__init__\<close> when the three optional mappings are given and
  the model classes return: one new object when \<open>model_class_2\<close> is \<open>None\<close>, two otherwise.
\<close>

lemma DPNetsModule_init_shared:
  assumes "mc (dicts h mh) = Inr net"
  shows "DPNetsModule_init mc mh ofn oh lf sf (Some a4) (Some a5) None (Some a2) h =
     Inr (\<lparr>hparams = insert_loops [([], dicts h mh), (''model_2_'', dicts h a2),
               (''optim_'', dicts h oh), (''sched_'', dicts h a4), (''sched_'', dicts h a5)] [],
            model = obj_count h, optimizer_fn = ofn, scheduler_fn = sf,
            optimizer_hyperparameters = oh, scheduler_hyperparameters = Some a4,
            scheduler_config = Some a5, loss_fn = lf, model_2 = obj_count h\<rparr>,
          h\<lparr>objs := (objs h)(obj_count h := net), obj_count := Suc (obj_count h)\<rparr>)"
  using assms unfolding DPNetsModule_init_def for_items_update for_items_update_plain
  by (simp add: on_ok_def items_def kwargs_def alloc_obj_def insert_loops_def)

lemma DPNetsModule_init_two:
  assumes "mc (dicts h mh) = Inr net" and "cls (dicts h a2) = Inr net2"
  shows "DPNetsModule_init mc mh ofn oh lf sf (Some a4) (Some a5) (Some cls) (Some a2) h =
     Inr (\<lparr>hparams = insert_loops [([], dicts h mh), (''model_2_'', dicts h a2),
               (''optim_'', dicts h oh), (''sched_'', dicts h a4), (''sched_'', dicts h a5)] [],
            model = obj_count h, optimizer_fn = ofn, scheduler_fn = sf,
            optimizer_hyperparameters = oh, scheduler_hyperparameters = Some a4,
            scheduler_config = Some a5, loss_fn = lf, model_2 = Suc (obj_count h)\<rparr>,
          h\<lparr>objs := (objs h)(obj_count h := net, Suc (obj_count h) := net2),
            obj_count := Suc (Suc (obj_count h))\<rparr>)"
  using assms unfolding DPNetsModule_init_def for_items_update for_items_update_plain
  by (simp add: on_ok_def items_def kwargs_def alloc_obj_def insert_loops_def)

lemma KoopmanDNNModule_init_empty:
  assumes "dicts h mh = []" and "mc (dicts h mh) = Inr net"
  shows "KoopmanDNNModule_init mc mh ofn oh lf ke (Some a3) de (Some a3') sf (Some a4) (Some a5) h =
     Inr (\<lparr>hparams = insert_loops [([], dicts h mh), (''optim_'', dicts h oh), (''koop_'', dicts h a3),
               (''dec_'', dicts h a3'), (''sched_'', dicts h a4), (''sched_'', dicts h a5)] [],
            model = obj_count h, optimizer_fn = ofn, scheduler_fn = sf,
            optimizer_hyperparameters = oh, scheduler_hyperparameters = Some a4,
            scheduler_config = Some a5, loss_fn = lf,
            koopman_estimator = ke, decoder = de\<rparr>,
          h\<lparr>objs := (objs h)(obj_count h := net), obj_count := Suc (obj_count h)\<rparr>)"
  using assms unfolding KoopmanDNNModule_init_def for_items_update for_items_raise
  by (simp add: on_ok_def items_def kwargs_def alloc_obj_def insert_loops_def insert_loop_def)

lemma KoopmanDNNModule_init_nonempty:
  assumes "dicts h mh \<noteq> []"
  shows "KoopmanDNNModule_init mc mh ofn oh lf ke kh de dh sf sh sc h = Inl AttributeError"
  using assms unfolding KoopmanDNNModule_init_def for_items_raise
  by (simp add: on_ok_def)

text \<open>
  For \<open>DPNetsModule\<close>, with no full key inserted twice, the flat configuration is exactly
  the entries of the five mappings under their full keys (here even in insertion order).
\<close>

lemma DPNetsModule_hparams_union:
  assumes "DPNetsModule_init mc mh ofn oh lf sf (Some a4) (Some a5) mc2 (Some a2) h = Inr (m, h')"
    and "distinct (map fst (DPNetsModule_inserts h mh a2 oh a4 a5))"
  shows "hparams m = DPNetsModule_inserts h mh a2 oh a4 a5"
  using DPNetsModule_init_Inr [OF assms(1)] assms(2)
  by (simp add: DPNetsModule_inserts_def insert_loops_distinct)

lemma KoopmanDNNModule_hparams_union:
  assumes "KoopmanDNNModule_init mc mh ofn oh lf ke (Some a3) de (Some a3') sf (Some a4) (Some a5) h
             = Inr (m, h')"
    and "distinct (map fst (KoopmanDNNModule_inserts h mh oh a3 a3' a4 a5))"
  shows "hparams m = KoopmanDNNModule_inserts h mh oh a3 a3' a4 a5 \<and> dicts h mh = []"
  using KoopmanDNNModule_init_Inr [OF assms(1)] assms(2)
  by (simp add: KoopmanDNNModule_inserts_def insert_loops_distinct)

subsection \<open>The flat configuration\<close>

text \<open>
  C1. The flat configuration is to hold the primary model's keys unprefixed.
  \<open>KoopmanDNNModule.__init__\<close> does not get that far: with \<open>model_hyperparameters\<close>
  \<open>{'width': 8}\<close> and every other mapping empty, the first loop's body reads the
  undefined attribute \<open>hparamsxz\<close> and construction ends with \<open>AttributeError\<close>.
  (\<open>DPNetsModule.__init__\<close>, which writes \<open>self.hparams\<close> there, does build the union:
  \<open>DPNetsModule_hparams_union\<close> above.)
\<close>

theorem KoopmanDNNModule_init_hparamsxz:
  "(KoopmanDNNModule_init example_class 0 example_optimizer_fn 5 example_loss_fn
      None (Some 5) None (Some 5) None (Some 5) (Some 5) example_heap
    :: error + (int, nat, unit, int) KoopmanDNNModule \<times> (int, nat) heap)
   = Inl AttributeError"
  by (simp add: KoopmanDNNModule_init_def example_heap_def on_ok_def)

text \<open>
  C3. For every module, store, batch and batch index, \<open>KoopmanDNNModule.base_step\<close> fails
  with \<open>NotImplementedError\<close>, and so do \<open>training_step\<close>, \<open>validation_step\<close> and
  \<open>test_step\<close>, which delegate to it.
\<close>

theorem KoopmanDNNModule_steps_not_implemented:
  "KoopmanDNNModule_base_step self h batch batch_idx = Inl NotImplementedError
   \<and> KoopmanDNNModule_training_step self h batch batch_idx = Inl NotImplementedError
   \<and> KoopmanDNNModule_validation_step self h batch batch_idx = Inl NotImplementedError
   \<and> KoopmanDNNModule_test_step self h batch batch_idx = Inl NotImplementedError"
  by (simp add: KoopmanDNNModule_base_step_def KoopmanDNNModule_training_step_def
      KoopmanDNNModule_validation_step_def KoopmanDNNModule_test_step_def on_ok_def)




text \<open>
  C8. Construction fails with \<open>AttributeError\<close> (raised by \<open>.items()\<close> on \<open>None\<close>, or
  earlier by the first loop of \<open>KoopmanDNNModule\<close>) whenever one of the defaulted
  hyperparameter mappings is left at \<open>None\<close>: \<open>model_hyperparameters_2\<close>,
  \<open>scheduler_hyperparameters\<close>, \<open>scheduler_config\<close> for \<open>DPNetsModule\<close>, and
  \<open>koopman_estimator_hyperparameters\<close>, \<open>decoder_hyperparameters\<close>,
  \<open>scheduler_hyperparameters\<close>, \<open>scheduler_config\<close> for \<open>KoopmanDNNModule\<close>; this whatever
  \<open>model_class_2\<close> and \<open>scheduler_fn\<close> are. With the mappings given, construction
  succeeds with \<open>scheduler_fn\<close>, \<open>model_class_2\<close>, \<open>koopman_estimator\<close> and \<open>decoder\<close> all
  omitted (for \<open>KoopmanDNNModule\<close>: on empty \<open>model_hyperparameters\<close>).
\<close>

theorem hyperparameter_mappings_required:
  "((mh2 = None \<or> sh = None \<or> sc = None) \<longrightarrow>
      DPNetsModule_init mc mh ofn oh lf sf sh sc mc2 mh2 h = Inl AttributeError)
   \<and> ((kh = None \<or> dh = None \<or> sh = None \<or> sc = None) \<longrightarrow>
      KoopmanDNNModule_init mc mh ofn oh lf ke kh de dh sf sh sc h = Inl AttributeError)
   \<and> (mc (dicts h mh) = Inr net \<longrightarrow>
      (\<exists>m h'. DPNetsModule_init mc mh ofn oh lf None (Some a4) (Some a5) None (Some a2) h
         = Inr (m, h')))
   \<and> (mc (dicts h mh) = Inr net \<and> dicts h mh = [] \<longrightarrow>
      (\<exists>m h'. KoopmanDNNModule_init mc mh ofn oh lf None (Some a3) None (Some a3') None (Some a4) (Some a5) h
         = Inr (m, h')))"
proof (intro conjI impI)
  assume "mh2 = None \<or> sh = None \<or> sc = None"
  then show "DPNetsModule_init mc mh ofn oh lf sf sh sc mc2 mh2 h = Inl AttributeError"
    unfolding DPNetsModule_init_def for_items_update for_items_update_plain
    by (auto simp: on_ok_def items_def split: option.splits)
next
  assume none: "kh = None \<or> dh = None \<or> sh = None \<or> sc = None"
  show "KoopmanDNNModule_init mc mh ofn oh lf ke kh de dh sf sh sc h = Inl AttributeError"
  proof (cases "dicts h mh = []")
    case True
    with none show ?thesis
      unfolding KoopmanDNNModule_init_def for_items_update for_items_raise
      by (auto simp: on_ok_def items_def split: option.splits)
  next
    case False
    then show ?thesis by (rule KoopmanDNNModule_init_nonempty)
  qed
next
  assume "mc (dicts h mh) = Inr net"
  then show "\<exists>m h'. DPNetsModule_init mc mh ofn oh lf None (Some a4) (Some a5) None (Some a2) h
         = Inr (m, h')"
    by (simp add: DPNetsModule_init_shared)
next
  assume "mc (dicts h mh) = Inr net \<and> dicts h mh = []"
  then show "\<exists>m h'. KoopmanDNNModule_init mc mh ofn oh lf None (Some a3) None (Some a3') None (Some a4) (Some a5) h
         = Inr (m, h')"
    using KoopmanDNNModule_init_empty [where mc = mc and h = h and mh = mh] by blast
qed

text \<open>
  Both constructors with every optional argument omitted, and with only the mappings
  given.
\<close>

theorem hyperparameter_mappings_required_witness:
  "(DPNetsModule_init example_class 0 example_optimizer_fn 2 example_loss_fn
        None None None None None example_heap
      :: error + (int, nat, unit, int) DPNetsModule \<times> (int, nat) heap) = Inl AttributeError
   \<and> (KoopmanDNNModule_init example_class 5 example_optimizer_fn 2 example_loss_fn
        None None None None None None None example_heap
      :: error + (int, nat, unit, int) KoopmanDNNModule \<times> (int, nat) heap) = Inl AttributeError
   \<and> (\<exists>m h'. (DPNetsModule_init example_class 0 example_optimizer_fn 2 example_loss_fn
        None (Some 3) (Some 4) None (Some 1) example_heap
      :: error + (int, nat, unit, int) DPNetsModule \<times> (int, nat) heap) = Inr (m, h'))
   \<and> (\<exists>m h'. (KoopmanDNNModule_init example_class 5 example_optimizer_fn 2 example_loss_fn
        None (Some 5) None (Some 5) None (Some 3) (Some 4) example_heap
      :: error + (int, nat, unit, int) KoopmanDNNModule \<times> (int, nat) heap) = Inr (m, h'))"
proof -
  have c0: "example_class (dicts example_heap 0) = Inr 1"
    and c5: "example_class (dicts example_heap 5) = Inr 0"
    and e5: "dicts example_heap 5 = []"
    by (simp_all add: example_class_def example_heap_def)
  from hyperparameter_mappings_required [where ?mh2.0 = None and sh = None and sc = None
      and kh = None and dh = None and mc = example_class and mh = 0 and h = example_heap
      and ofn = example_optimizer_fn and oh = 2 and lf = example_loss_fn and sf = None
      and ?mc2.0 = None and net = 1 and ?a4.0 = 3 and ?a5.0 = 4 and ?a2.0 = 1] c0
  have dp: "(DPNetsModule_init example_class 0 example_optimizer_fn 2 example_loss_fn
        None None None None None example_heap
      :: error + (int, nat, unit, int) DPNetsModule \<times> (int, nat) heap) = Inl AttributeError
    \<and> (\<exists>m h'. (DPNetsModule_init example_class 0 example_optimizer_fn 2 example_loss_fn
        None (Some 3) (Some 4) None (Some 1) example_heap
      :: error + (int, nat, unit, int) DPNetsModule \<times> (int, nat) heap) = Inr (m, h'))"
    by blast
  from hyperparameter_mappings_required [where ?mh2.0 = None and sh = None and sc = None
      and kh = None and dh = None and mc = example_class and mh = 5 and h = example_heap
      and ofn = example_optimizer_fn and oh = 2 and lf = example_loss_fn and sf = None
      and ke = None and de = None and net = 0 and ?a4.0 = 3 and ?a5.0 = 4 and ?a3.0 = 5
      and a3' = 5] c5 e5
  have kd: "(KoopmanDNNModule_init example_class 5 example_optimizer_fn 2 example_loss_fn
        None None None None None None None example_heap
      :: error + (int, nat, unit, int) KoopmanDNNModule \<times> (int, nat) heap) = Inl AttributeError
    \<and> (\<exists>m h'. (KoopmanDNNModule_init example_class 5 example_optimizer_fn 2 example_loss_fn
        None (Some 5) None (Some 5) None (Some 3) (Some 4) example_heap
      :: error + (int, nat, unit, int) KoopmanDNNModule \<times> (int, nat) heap) = Inr (m, h'))"
    by blast
  from dp kd show ?thesis by blast
qed

subsection \<open>Optimizer and scheduler construction\<close>

lemma DPNetsModule_init_fields:
  assumes "DPNetsModule_init mc mh ofn oh lf sf sh sc mc2 mh2 h = Inr (m, h')"
  shows "optimizer_fn m = ofn \<and> scheduler_fn m = sf \<and> optimizer_hyperparameters m = oh
     \<and> scheduler_hyperparameters m = sh \<and> scheduler_config m = sc \<and> loss_fn m = lf"
  using assms unfolding DPNetsModule_init_def for_items_update for_items_update_plain
  by (auto simp: on_ok_def items_def kwargs_def alloc_obj_def
      split: option.splits sum.splits prod.splits)

lemma KoopmanDNNModule_init_fields:
  assumes "KoopmanDNNModule_init mc mh ofn oh lf ke kh de dh sf sh sc h = Inr (m, h')"
  shows "optimizer_fn m = ofn \<and> scheduler_fn m = sf \<and> optimizer_hyperparameters m = oh
     \<and> scheduler_hyperparameters m = sh \<and> scheduler_config m = sc \<and> loss_fn m = lf
     \<and> koopman_estimator m = ke \<and> decoder m = de"
  using assms unfolding KoopmanDNNModule_init_def for_items_update for_items_raise
  by (auto simp: on_ok_def items_def kwargs_def alloc_obj_def
      split: option.splits sum.splits prod.splits if_splits)

lemma DPNetsModule_configure_optimizers_bare:
  assumes "scheduler_fn self = None"
    and "optimizer_fn self ps (dicts h (optimizer_hyperparameters self)) = Inr opt"
  shows "DPNetsModule_configure_optimizers ps self h
     = Inr (Optimizer (obj_count h), with_optimizer h opt)"
  using assms
  by (simp add: DPNetsModule_configure_optimizers_def on_ok_def alloc_obj_def with_optimizer_def)

lemma DPNetsModule_configure_optimizers_scheduler:
  assumes "scheduler_fn self = Some f"
    and "scheduler_hyperparameters self = Some a4" and "scheduler_config self = Some a5"
    and "optimizer_fn self ps (dicts h (optimizer_hyperparameters self)) = Inr opt"
    and "f (obj_count h) (dicts h a4) = Inr sch"
  shows "DPNetsModule_configure_optimizers ps self h
     = Inr (OptimizersAndSchedulers [obj_count h] [dict_count h], with_scheduler h opt sch a5)"
  using assms
  by (simp add: DPNetsModule_configure_optimizers_def on_ok_def alloc_obj_def kwargs_def
      copy_def alloc_dict_def setitem_def with_scheduler_def)

lemma KoopmanDNNModule_configure_optimizers_bare:
  assumes "scheduler_fn self = None"
    and "optimizer_fn self ps (dicts h (optimizer_hyperparameters self)) = Inr opt"
  shows "KoopmanDNNModule_configure_optimizers ps self h
     = Inr (Optimizer (obj_count h), with_optimizer h opt)"
  using assms
  by (simp add: KoopmanDNNModule_configure_optimizers_def on_ok_def alloc_obj_def with_optimizer_def)

lemma KoopmanDNNModule_configure_optimizers_scheduler:
  assumes "scheduler_fn self = Some f"
    and "scheduler_hyperparameters self = Some a4" and "scheduler_config self = Some a5"
    and "optimizer_fn self ps (dicts h (optimizer_hyperparameters self)) = Inr opt"
    and "f (obj_count h) (dicts h a4) = Inr sch"
  shows "KoopmanDNNModule_configure_optimizers ps self h
     = Inr (OptimizersAndSchedulers [obj_count h] [dict_count h], with_scheduler h opt sch a5)"
  using assms
  by (simp add: KoopmanDNNModule_configure_optimizers_def on_ok_def alloc_obj_def kwargs_def
      copy_def alloc_dict_def setitem_def with_scheduler_def)

text \<open>
  C4. For a module that a constructor returned, in any later store \<open>h\<close> in which the
  optimizer factory returns \<open>opt\<close> on the module's parameters and the entries of
  \<open>optimizer_hyperparameters\<close>: with \<open>scheduler_fn\<close> \<open>None\<close>, \<open>configure_optimizers\<close>
  returns the reference to the new optimizer object alone; with \<open>scheduler_fn\<close> set (and
  the factory returning \<open>sch\<close> on that optimizer reference and the entries of
  \<open>scheduler_hyperparameters\<close>) it returns the two singleton lists, the optimizer and a
  new dictionary whose entries are those of \<open>scheduler_config\<close> with \<open>scheduler\<close> set
  to the reference to the new scheduler object. The addresses \<open>obj_count h\<close>,
  \<open>Suc (obj_count h)\<close> and \<open>dict_count h\<close> are not allocated in \<open>h\<close>: the objects are
  new.
\<close>

theorem configure_optimizers_result:
  assumes "ofn ps (dicts h oh) = Inr opt"
  shows "(DPNetsModule_init mc mh ofn oh lf sf sh sc mc2 mh2 h0 = Inr (self, h1) \<longrightarrow>
            (sf = None \<longrightarrow>
               (\<exists>h'. DPNetsModule_configure_optimizers ps self h = Inr (Optimizer (obj_count h), h')
                  \<and> objs h' (obj_count h) = opt))
          \<and> (\<exists>a4 a5. sh = Some a4 \<and> sc = Some a5 \<and>
               (\<forall>f sch. sf = Some f \<and> f (obj_count h) (dicts h a4) = Inr sch \<longrightarrow>
                  (\<exists>h'. DPNetsModule_configure_optimizers ps self h
                        = Inr (OptimizersAndSchedulers [obj_count h] [dict_count h], h')
                     \<and> objs h' (obj_count h) = opt
                     \<and> objs h' (Suc (obj_count h)) = sch
                     \<and> dicts h' (dict_count h)
                        = AList.update ''scheduler'' (ObjRef (Suc (obj_count h))) (dicts h a5)))))
       \<and> (KoopmanDNNModule_init mc mh ofn oh lf ke kh de dh sf sh sc h0 = Inr (self', h1) \<longrightarrow>
            (sf = None \<longrightarrow>
               (\<exists>h'. KoopmanDNNModule_configure_optimizers ps self' h = Inr (Optimizer (obj_count h), h')
                  \<and> objs h' (obj_count h) = opt))
          \<and> (\<exists>a4 a5. sh = Some a4 \<and> sc = Some a5 \<and>
               (\<forall>f sch. sf = Some f \<and> f (obj_count h) (dicts h a4) = Inr sch \<longrightarrow>
                  (\<exists>h'. KoopmanDNNModule_configure_optimizers ps self' h
                        = Inr (OptimizersAndSchedulers [obj_count h] [dict_count h], h')
                     \<and> objs h' (obj_count h) = opt
                     \<and> objs h' (Suc (obj_count h)) = sch
                     \<and> dicts h' (dict_count h)
                        = AList.update ''scheduler'' (ObjRef (Suc (obj_count h))) (dicts h a5)))))"
proof (intro conjI impI)
  assume init: "DPNetsModule_init mc mh ofn oh lf sf sh sc mc2 mh2 h0 = Inr (self, h1)"
  note f = DPNetsModule_init_fields [OF init]
  from f assms have opt: "optimizer_fn self ps (dicts h (optimizer_hyperparameters self)) = Inr opt"
    by simp
  assume "sf = None"
  with f have "scheduler_fn self = None" by simp
  from DPNetsModule_configure_optimizers_bare [OF this opt]
  show "\<exists>h'. DPNetsModule_configure_optimizers ps self h = Inr (Optimizer (obj_count h), h')
      \<and> objs h' (obj_count h) = opt"
    by (simp add: with_optimizer_def)
next
  assume init: "DPNetsModule_init mc mh ofn oh lf sf sh sc mc2 mh2 h0 = Inr (self, h1)"
  note f = DPNetsModule_init_fields [OF init]
  from f assms have opt: "optimizer_fn self ps (dicts h (optimizer_hyperparameters self)) = Inr opt"
    by simp
  from DPNetsModule_init_Inr [OF init] obtain a4 a5 where some: "sh = Some a4" "sc = Some a5"
    by blast
  have "\<forall>f sch. sf = Some f \<and> f (obj_count h) (dicts h a4) = Inr sch \<longrightarrow>
      (\<exists>h'. DPNetsModule_configure_optimizers ps self h
            = Inr (OptimizersAndSchedulers [obj_count h] [dict_count h], h')
         \<and> objs h' (obj_count h) = opt
         \<and> objs h' (Suc (obj_count h)) = sch
         \<and> dicts h' (dict_count h)
            = AList.update ''scheduler'' (ObjRef (Suc (obj_count h))) (dicts h a5))"
  proof (intro allI impI)
    fix g sch
    assume g: "sf = Some g \<and> g (obj_count h) (dicts h a4) = Inr sch"
    with f some have "scheduler_fn self = Some g" "scheduler_hyperparameters self = Some a4"
      "scheduler_config self = Some a5" "g (obj_count h) (dicts h a4) = Inr sch"
      by simp_all
    from DPNetsModule_configure_optimizers_scheduler [OF this(1,2,3) opt this(4)]
    show "\<exists>h'. DPNetsModule_configure_optimizers ps self h
            = Inr (OptimizersAndSchedulers [obj_count h] [dict_count h], h')
         \<and> objs h' (obj_count h) = opt
         \<and> objs h' (Suc (obj_count h)) = sch
         \<and> dicts h' (dict_count h)
            = AList.update ''scheduler'' (ObjRef (Suc (obj_count h))) (dicts h a5)"
      by (simp add: with_scheduler_def)
  qed
  with some show "\<exists>a4 a5. sh = Some a4 \<and> sc = Some a5 \<and>
     (\<forall>f sch. sf = Some f \<and> f (obj_count h) (dicts h a4) = Inr sch \<longrightarrow>
        (\<exists>h'. DPNetsModule_configure_optimizers ps self h
              = Inr (OptimizersAndSchedulers [obj_count h] [dict_count h], h')
           \<and> objs h' (obj_count h) = opt
           \<and> objs h' (Suc (obj_count h)) = sch
           \<and> dicts h' (dict_count h)
              = AList.update ''scheduler'' (ObjRef (Suc (obj_count h))) (dicts h a5)))"
    by blast
next
  assume init: "KoopmanDNNModule_init mc mh ofn oh lf ke kh de dh sf sh sc h0 = Inr (self', h1)"
  note f = KoopmanDNNModule_init_fields [OF init]
  from f assms have opt: "optimizer_fn self' ps (dicts h (optimizer_hyperparameters self')) = Inr opt"
    by simp
  assume "sf = None"
  with f have "scheduler_fn self' = None" by simp
  from KoopmanDNNModule_configure_optimizers_bare [OF this opt]
  show "\<exists>h'. KoopmanDNNModule_configure_optimizers ps self' h = Inr (Optimizer (obj_count h), h')
      \<and> objs h' (obj_count h) = opt"
    by (simp add: with_optimizer_def)
next
  assume init: "KoopmanDNNModule_init mc mh ofn oh lf ke kh de dh sf sh sc h0 = Inr (self', h1)"
  note f = KoopmanDNNModule_init_fields [OF init]
  from f assms have opt: "optimizer_fn self' ps (dicts h (optimizer_hyperparameters self')) = Inr opt"
    by simp
  from KoopmanDNNModule_init_Inr [OF init] obtain a4 a5 where some: "sh = Some a4" "sc = Some a5"
    by blast
  have "\<forall>f sch. sf = Some f \<and> f (obj_count h) (dicts h a4) = Inr sch \<longrightarrow>
      (\<exists>h'. KoopmanDNNModule_configure_optimizers ps self' h
            = Inr (OptimizersAndSchedulers [obj_count h] [dict_count h], h')
         \<and> objs h' (obj_count h) = opt
         \<and> objs h' (Suc (obj_count h)) = sch
         \<and> dicts h' (dict_count h)
            = AList.update ''scheduler'' (ObjRef (Suc (obj_count h))) (dicts h a5))"
  proof (intro allI impI)
    fix g sch
    assume g: "sf = Some g \<and> g (obj_count h) (dicts h a4) = Inr sch"
    with f some have "scheduler_fn self' = Some g" "scheduler_hyperparameters self' = Some a4"
      "scheduler_config self' = Some a5" "g (obj_count h) (dicts h a4) = Inr sch"
      by simp_all
    from KoopmanDNNModule_configure_optimizers_scheduler [OF this(1,2,3) opt this(4)]
    show "\<exists>h'. KoopmanDNNModule_configure_optimizers ps self' h
            = Inr (OptimizersAndSchedulers [obj_count h] [dict_count h], h')
         \<and> objs h' (obj_count h) = opt
         \<and> objs h' (Suc (obj_count h)) = sch
         \<and> dicts h' (dict_count h)
            = AList.update ''scheduler'' (ObjRef (Suc (obj_count h))) (dicts h a5)"
      by (simp add: with_scheduler_def)
  qed
  with some show "\<exists>a4 a5. sh = Some a4 \<and> sc = Some a5 \<and>
     (\<forall>f sch. sf = Some f \<and> f (obj_count h) (dicts h a4) = Inr sch \<longrightarrow>
        (\<exists>h'. KoopmanDNNModule_configure_optimizers ps self' h
              = Inr (OptimizersAndSchedulers [obj_count h] [dict_count h], h')
           \<and> objs h' (obj_count h) = opt
           \<and> objs h' (Suc (obj_count h)) = sch
           \<and> dicts h' (dict_count h)
              = AList.update ''scheduler'' (ObjRef (Suc (obj_count h))) (dicts h a5)))"
    by blast
qed

text \<open>
  A \<open>DPNetsModule\<close> with a scheduler factory and a \<open>KoopmanDNNModule\<close> without one,
  each configured in the store its constructor returned.
\<close>

theorem configure_optimizers_result_witness:
  "(\<exists>self h1 h'. DPNetsModule_init example_class 0 example_optimizer_fn 2 example_loss_fn
         (Some example_scheduler_fn) (Some 3) (Some 4) None (Some 1) example_heap = Inr (self, h1)
      \<and> DPNetsModule_configure_optimizers () self h1 = Inr (OptimizersAndSchedulers [1] [6], h')
      \<and> objs h' 1 = 11 \<and> objs h' 2 = 23
      \<and> dicts h' 6 = [(''interval'', Prim 5), (''monitor'', Prim 0), (''scheduler'', ObjRef 2)])
   \<and> (\<exists>self h1 h'. KoopmanDNNModule_init example_class 5 example_optimizer_fn 2 example_loss_fn
         None (Some 5) None (Some 5) None (Some 3) (Some 4) example_heap = Inr (self, h1)
      \<and> KoopmanDNNModule_configure_optimizers () self h1 = Inr (Optimizer 1, h')
      \<and> objs h' 1 = 11)"
proof -
  have c0: "example_class (dicts example_heap 0) = Inr 1"
    and c5: "example_class (dicts example_heap 5) = Inr 0"
    and e5: "dicts example_heap 5 = []"
    by (simp_all add: example_class_def example_heap_def)
  from DPNetsModule_init_shared [where mc = example_class and h = example_heap and mh = 0, OF c0]
  obtain self h1 where
    init: "DPNetsModule_init example_class 0 example_optimizer_fn 2 example_loss_fn
         (Some example_scheduler_fn) (Some 3) (Some 4) None (Some 1) example_heap = Inr (self, h1)"
    and h1: "h1 = example_heap\<lparr>objs := (objs example_heap)(obj_count example_heap := 1),
         obj_count := Suc (obj_count example_heap)\<rparr>"
    by blast
  have o1: "example_optimizer_fn () (dicts h1 2) = Inr 11"
    and s1: "example_scheduler_fn (obj_count h1) (dicts h1 3) = Inr 23"
    and n1: "obj_count h1 = 1" "dict_count h1 = 6"
    and d1: "dicts h1 4 = [(''interval'', Prim 5), (''monitor'', Prim 0)]"
    by (simp_all add: h1 example_heap_def example_optimizer_fn_def example_scheduler_fn_def)
  from configure_optimizers_result [where ofn = example_optimizer_fn and ps = "()" and h = h1
      and oh = 2 and opt = 11, OF o1, THEN conjunct1, rule_format, OF init] s1
  have dp: "\<exists>h'. DPNetsModule_configure_optimizers () self h1 = Inr (OptimizersAndSchedulers [1] [6], h')
      \<and> objs h' 1 = 11 \<and> objs h' 2 = 23
      \<and> dicts h' 6 = [(''interval'', Prim 5), (''monitor'', Prim 0), (''scheduler'', ObjRef 2)]"
    by (simp add: n1 d1 numeral_2_eq_2)
  from KoopmanDNNModule_init_empty [where mc = example_class and h = example_heap and mh = 5,
      OF e5 c5]
  obtain self' h2 where
    init': "KoopmanDNNModule_init example_class 5 example_optimizer_fn 2 example_loss_fn
         None (Some 5) None (Some 5) None (Some 3) (Some 4) example_heap = Inr (self', h2)"
    and h2: "h2 = example_heap\<lparr>objs := (objs example_heap)(obj_count example_heap := 0),
         obj_count := Suc (obj_count example_heap)\<rparr>"
    by blast
  have o2: "example_optimizer_fn () (dicts h2 2) = Inr 11" and n2: "obj_count h2 = 1"
    by (simp_all add: h2 example_heap_def example_optimizer_fn_def)
  from configure_optimizers_result [where ofn = example_optimizer_fn and ps = "()" and h = h2
      and oh = 2 and opt = 11, OF o2, THEN conjunct2, rule_format, OF init']
  have kd: "\<exists>h'. KoopmanDNNModule_configure_optimizers () self' h2 = Inr (Optimizer 1, h')
      \<and> objs h' 1 = 11"
    by (simp add: n2)
  from init dp init' kd show ?thesis by blast
qed

text \<open>
  What a successful call leaves in the store: the stored configuration is untouched, and
  a returned configuration is a new dictionary built from it.
\<close>

lemma DPNetsModule_configure_optimizers_frame:
  assumes "scheduler_config self = Some a5" and "a5 < dict_count h"
    and "DPNetsModule_configure_optimizers ps self h = Inr (r, h')"
  shows "dicts h' a5 = dicts h a5 \<and> a5 < dict_count h'
     \<and> (\<forall>opts cs. r = OptimizersAndSchedulers opts cs \<longrightarrow>
          (\<exists>s. cs = [dict_count h] \<and> dict_count h \<noteq> a5 \<and> dict_count h' = Suc (dict_count h)
             \<and> dicts h' (dict_count h) = AList.update ''scheduler'' (ObjRef s) (dicts h a5)))"
  using assms
  by (auto simp: DPNetsModule_configure_optimizers_def on_ok_def alloc_obj_def kwargs_def
      copy_def alloc_dict_def setitem_def
      split: option.splits sum.splits prod.splits)

lemma KoopmanDNNModule_configure_optimizers_frame:
  assumes "scheduler_config self = Some a5" and "a5 < dict_count h"
    and "KoopmanDNNModule_configure_optimizers ps self h = Inr (r, h')"
  shows "dicts h' a5 = dicts h a5 \<and> a5 < dict_count h'
     \<and> (\<forall>opts cs. r = OptimizersAndSchedulers opts cs \<longrightarrow>
          (\<exists>s. cs = [dict_count h] \<and> dict_count h \<noteq> a5 \<and> dict_count h' = Suc (dict_count h)
             \<and> dicts h' (dict_count h) = AList.update ''scheduler'' (ObjRef s) (dicts h a5)))"
  using assms
  by (auto simp: KoopmanDNNModule_configure_optimizers_def on_ok_def alloc_obj_def kwargs_def
      copy_def alloc_dict_def setitem_def
      split: option.splits sum.splits prod.splits)

text \<open>
  C10. \<open>configure_optimizers\<close> writes the scheduler into a copy: for a module whose
  \<open>scheduler_config\<close> is an allocated dictionary, a successful call leaves that
  dictionary's entries as they were (so it gains no key \<open>scheduler\<close>), the configuration
  it returns is another dictionary, and a second call again returns the original entries
  with only \<open>scheduler\<close> set.
\<close>

theorem configure_optimizers_keeps_scheduler_config:
  assumes "a5 < dict_count h"
  shows "(scheduler_config self = Some a5 \<and> DPNetsModule_configure_optimizers ps self h = Inr (r, h') \<longrightarrow>
            dicts h' a5 = dicts h a5
          \<and> (map_of (dicts h a5) ''scheduler'' = None \<longrightarrow> map_of (dicts h' a5) ''scheduler'' = None)
          \<and> (\<forall>opts cs. r = OptimizersAndSchedulers opts cs \<longrightarrow> a5 \<notin> set cs)
          \<and> (\<forall>ps2 r2 h''. DPNetsModule_configure_optimizers ps2 self h' = Inr (r2, h'') \<longrightarrow>
                dicts h'' a5 = dicts h a5
              \<and> (\<forall>opts cs. r2 = OptimizersAndSchedulers opts cs \<longrightarrow>
                    (\<exists>c s. cs = [c] \<and> c \<noteq> a5
                       \<and> dicts h'' c = AList.update ''scheduler'' (ObjRef s) (dicts h a5)))))
       \<and> (scheduler_config self' = Some a5 \<and> KoopmanDNNModule_configure_optimizers ps self' h = Inr (r, h') \<longrightarrow>
            dicts h' a5 = dicts h a5
          \<and> (map_of (dicts h a5) ''scheduler'' = None \<longrightarrow> map_of (dicts h' a5) ''scheduler'' = None)
          \<and> (\<forall>opts cs. r = OptimizersAndSchedulers opts cs \<longrightarrow> a5 \<notin> set cs)
          \<and> (\<forall>ps2 r2 h''. KoopmanDNNModule_configure_optimizers ps2 self' h' = Inr (r2, h'') \<longrightarrow>
                dicts h'' a5 = dicts h a5
              \<and> (\<forall>opts cs. r2 = OptimizersAndSchedulers opts cs \<longrightarrow>
                    (\<exists>c s. cs = [c] \<and> c \<noteq> a5
                       \<and> dicts h'' c = AList.update ''scheduler'' (ObjRef s) (dicts h a5)))))"
proof (intro conjI impI allI)
  fix ps2 r2 h'' opts cs
  assume a: "scheduler_config self = Some a5 \<and> DPNetsModule_configure_optimizers ps self h = Inr (r, h')"
  note first = DPNetsModule_configure_optimizers_frame [OF conjunct1 [OF a] assms conjunct2 [OF a]]
  from first show "dicts h' a5 = dicts h a5" by simp
  {
    assume "map_of (dicts h a5) ''scheduler'' = None"
    with first show "map_of (dicts h' a5) ''scheduler'' = None" by simp
  }
  {
    assume "r = OptimizersAndSchedulers opts cs"
    with first show "a5 \<notin> set cs" by auto
  }
  assume b: "DPNetsModule_configure_optimizers ps2 self h' = Inr (r2, h'')"
  from first have "a5 < dict_count h'" by simp
  note second = DPNetsModule_configure_optimizers_frame [OF conjunct1 [OF a] this b]
  from first second show "dicts h'' a5 = dicts h a5" by simp
  assume "r2 = OptimizersAndSchedulers opts cs"
  with first second show "\<exists>c s. cs = [c] \<and> c \<noteq> a5
      \<and> dicts h'' c = AList.update ''scheduler'' (ObjRef s) (dicts h a5)"
    by auto
next
  fix ps2 r2 h'' opts cs
  assume a: "scheduler_config self' = Some a5 \<and> KoopmanDNNModule_configure_optimizers ps self' h = Inr (r, h')"
  note first = KoopmanDNNModule_configure_optimizers_frame [OF conjunct1 [OF a] assms conjunct2 [OF a]]
  from first show "dicts h' a5 = dicts h a5" by simp
  {
    assume "map_of (dicts h a5) ''scheduler'' = None"
    with first show "map_of (dicts h' a5) ''scheduler'' = None" by simp
  }
  {
    assume "r = OptimizersAndSchedulers opts cs"
    with first show "a5 \<notin> set cs" by auto
  }
  assume b: "KoopmanDNNModule_configure_optimizers ps2 self' h' = Inr (r2, h'')"
  from first have "a5 < dict_count h'" by simp
  note second = KoopmanDNNModule_configure_optimizers_frame [OF conjunct1 [OF a] this b]
  from first second show "dicts h'' a5 = dicts h a5" by simp
  assume "r2 = OptimizersAndSchedulers opts cs"
  with first second show "\<exists>c s. cs = [c] \<and> c \<noteq> a5
      \<and> dicts h'' c = AList.update ''scheduler'' (ObjRef s) (dicts h a5)"
    by auto
qed

text \<open>
  Two calls in a row on each kind of module: dictionary 4, the stored configuration,
  keeps its two entries, and the second call's configuration is those entries and
  \<open>scheduler\<close>.
\<close>

theorem configure_optimizers_keeps_scheduler_config_witness:
  "(\<exists>self h1 r h' r2 h''.
       DPNetsModule_init example_class 0 example_optimizer_fn 2 example_loss_fn
         (Some example_scheduler_fn) (Some 3) (Some 4) None (Some 1) example_heap = Inr (self, h1)
     \<and> DPNetsModule_configure_optimizers () self h1 = Inr (r, h')
     \<and> dicts h' 4 = [(''interval'', Prim 5), (''monitor'', Prim 0)]
     \<and> DPNetsModule_configure_optimizers () self h' = Inr (r2, h'')
     \<and> dicts h'' 4 = [(''interval'', Prim 5), (''monitor'', Prim 0)]
     \<and> (\<exists>c s. r2 = OptimizersAndSchedulers [3] [c] \<and> c \<noteq> 4 \<and> dicts h'' c =
           [(''interval'', Prim 5), (''monitor'', Prim 0), (''scheduler'', ObjRef s)]))
   \<and> (\<exists>self h1 r h' r2 h''.
       KoopmanDNNModule_init example_class 5 example_optimizer_fn 2 example_loss_fn
         None (Some 5) None (Some 5) (Some example_scheduler_fn) (Some 3) (Some 4) example_heap
         = Inr (self, h1)
     \<and> KoopmanDNNModule_configure_optimizers () self h1 = Inr (r, h')
     \<and> dicts h' 4 = [(''interval'', Prim 5), (''monitor'', Prim 0)]
     \<and> KoopmanDNNModule_configure_optimizers () self h' = Inr (r2, h'')
     \<and> dicts h'' 4 = [(''interval'', Prim 5), (''monitor'', Prim 0)]
     \<and> (\<exists>c s. r2 = OptimizersAndSchedulers [3] [c] \<and> c \<noteq> 4 \<and> dicts h'' c =
           [(''interval'', Prim 5), (''monitor'', Prim 0), (''scheduler'', ObjRef s)]))"
proof (rule conjI)
  have c0: "example_class (dicts example_heap 0) = Inr 1"
    by (simp add: example_class_def example_heap_def)
  from DPNetsModule_init_shared [where mc = example_class and h = example_heap and mh = 0, OF c0]
  obtain self h1 where
    init: "DPNetsModule_init example_class 0 example_optimizer_fn 2 example_loss_fn
         (Some example_scheduler_fn) (Some 3) (Some 4) None (Some 1) example_heap = Inr (self, h1)"
    and h1: "h1 = example_heap\<lparr>objs := (objs example_heap)(obj_count example_heap := 1),
         obj_count := Suc (obj_count example_heap)\<rparr>"
    by blast
  note f = DPNetsModule_init_fields [OF init]
  define h' where "h' = with_scheduler h1 11 23 4"
  define h'' where "h'' = with_scheduler h' 11 25 4"
  have call1: "DPNetsModule_configure_optimizers () self h1
      = Inr (OptimizersAndSchedulers [obj_count h1] [dict_count h1], h')"
    unfolding h'_def
    by (rule DPNetsModule_configure_optimizers_scheduler [where f = example_scheduler_fn and ?a4.0 = 3])
      (simp_all add: f h1 example_heap_def example_optimizer_fn_def example_scheduler_fn_def)
  have call2: "DPNetsModule_configure_optimizers () self h'
      = Inr (OptimizersAndSchedulers [obj_count h'] [dict_count h'], h'')"
    unfolding h''_def
    by (rule DPNetsModule_configure_optimizers_scheduler [where f = example_scheduler_fn and ?a4.0 = 3])
      (simp_all add: f h1 h'_def with_scheduler_def example_heap_def example_optimizer_fn_def
        example_scheduler_fn_def)
  have v: "4 < dict_count h1" and d: "dicts h1 4 = [(''interval'', Prim 5), (''monitor'', Prim 0)]"
    and n: "obj_count h' = 3"
    by (simp_all add: h1 h'_def with_scheduler_def example_heap_def)
  from f have sc: "scheduler_config self = Some 4" by simp
  from configure_optimizers_keeps_scheduler_config [OF v, THEN conjunct1, rule_format,
      OF conjI [OF sc call1]]
  have keep: "dicts h' 4 = dicts h1 4"
    and again: "\<And>ps2 r2 h'' opts cs. DPNetsModule_configure_optimizers ps2 self h' = Inr (r2, h'')
        \<Longrightarrow> dicts h'' 4 = dicts h1 4
          \<and> (r2 = OptimizersAndSchedulers opts cs \<longrightarrow> (\<exists>c s. cs = [c] \<and> c \<noteq> 4
                \<and> dicts h'' c = AList.update ''scheduler'' (ObjRef s) (dicts h1 4)))"
    by blast+
  from again [OF call2, of "[obj_count h']" "[dict_count h']"]
  have "dicts h'' 4 = dicts h1 4" and "\<exists>c s. [dict_count h'] = [c] \<and> c \<noteq> 4
      \<and> dicts h'' c = AList.update ''scheduler'' (ObjRef s) (dicts h1 4)"
    by simp_all
  with init call1 call2 keep show "\<exists>self h1 r h' r2 h''.
       DPNetsModule_init example_class 0 example_optimizer_fn 2 example_loss_fn
         (Some example_scheduler_fn) (Some 3) (Some 4) None (Some 1) example_heap = Inr (self, h1)
     \<and> DPNetsModule_configure_optimizers () self h1 = Inr (r, h')
     \<and> dicts h' 4 = [(''interval'', Prim 5), (''monitor'', Prim 0)]
     \<and> DPNetsModule_configure_optimizers () self h' = Inr (r2, h'')
     \<and> dicts h'' 4 = [(''interval'', Prim 5), (''monitor'', Prim 0)]
     \<and> (\<exists>c s. r2 = OptimizersAndSchedulers [3] [c] \<and> c \<noteq> 4 \<and> dicts h'' c =
           [(''interval'', Prim 5), (''monitor'', Prim 0), (''scheduler'', ObjRef s)])"
    by (auto simp: d n)
next
  have c5: "example_class (dicts example_heap 5) = Inr 0" and e5: "dicts example_heap 5 = []"
    by (simp_all add: example_class_def example_heap_def)
  from KoopmanDNNModule_init_empty [where mc = example_class and h = example_heap and mh = 5,
      OF e5 c5]
  obtain self h1 where
    init: "KoopmanDNNModule_init example_class 5 example_optimizer_fn 2 example_loss_fn
         None (Some 5) None (Some 5) (Some example_scheduler_fn) (Some 3) (Some 4) example_heap
         = Inr (self, h1)"
    and h1: "h1 = example_heap\<lparr>objs := (objs example_heap)(obj_count example_heap := 0),
         obj_count := Suc (obj_count example_heap)\<rparr>"
    by blast
  note f = KoopmanDNNModule_init_fields [OF init]
  define h' where "h' = with_scheduler h1 11 23 4"
  define h'' where "h'' = with_scheduler h' 11 25 4"
  have call1: "KoopmanDNNModule_configure_optimizers () self h1
      = Inr (OptimizersAndSchedulers [obj_count h1] [dict_count h1], h')"
    unfolding h'_def
    by (rule KoopmanDNNModule_configure_optimizers_scheduler [where f = example_scheduler_fn and ?a4.0 = 3])
      (simp_all add: f h1 example_heap_def example_optimizer_fn_def example_scheduler_fn_def)
  have call2: "KoopmanDNNModule_configure_optimizers () self h'
      = Inr (OptimizersAndSchedulers [obj_count h'] [dict_count h'], h'')"
    unfolding h''_def
    by (rule KoopmanDNNModule_configure_optimizers_scheduler [where f = example_scheduler_fn and ?a4.0 = 3])
      (simp_all add: f h1 h'_def with_scheduler_def example_heap_def example_optimizer_fn_def
        example_scheduler_fn_def)
  have v: "4 < dict_count h1" and d: "dicts h1 4 = [(''interval'', Prim 5), (''monitor'', Prim 0)]"
    and n: "obj_count h' = 3"
    by (simp_all add: h1 h'_def with_scheduler_def example_heap_def)
  from f have sc: "scheduler_config self = Some 4" by simp
  from configure_optimizers_keeps_scheduler_config [OF v, THEN conjunct2, rule_format,
      OF conjI [OF sc call1]]
  have keep: "dicts h' 4 = dicts h1 4"
    and again: "\<And>ps2 r2 h'' opts cs. KoopmanDNNModule_configure_optimizers ps2 self h' = Inr (r2, h'')
        \<Longrightarrow> dicts h'' 4 = dicts h1 4
          \<and> (r2 = OptimizersAndSchedulers opts cs \<longrightarrow> (\<exists>c s. cs = [c] \<and> c \<noteq> 4
                \<and> dicts h'' c = AList.update ''scheduler'' (ObjRef s) (dicts h1 4)))"
    by blast+
  from again [OF call2, of "[obj_count h']" "[dict_count h']"]
  have "dicts h'' 4 = dicts h1 4" and "\<exists>c s. [dict_count h'] = [c] \<and> c \<noteq> 4
      \<and> dicts h'' c = AList.update ''scheduler'' (ObjRef s) (dicts h1 4)"
    by simp_all
  with init call1 call2 keep show "\<exists>self h1 r h' r2 h''.
       KoopmanDNNModule_init example_class 5 example_optimizer_fn 2 example_loss_fn
         None (Some 5) None (Some 5) (Some example_scheduler_fn) (Some 3) (Some 4) example_heap
         = Inr (self, h1)
     \<and> KoopmanDNNModule_configure_optimizers () self h1 = Inr (r, h')
     \<and> dicts h' 4 = [(''interval'', Prim 5), (''monitor'', Prim 0)]
     \<and> KoopmanDNNModule_configure_optimizers () self h' = Inr (r2, h'')
     \<and> dicts h'' 4 = [(''interval'', Prim 5), (''monitor'', Prim 0)]
     \<and> (\<exists>c s. r2 = OptimizersAndSchedulers [3] [c] \<and> c \<noteq> 4 \<and> dicts h'' c =
           [(''interval'', Prim 5), (''monitor'', Prim 0), (''scheduler'', ObjRef s)])"
    by (auto simp: d n)
qed

subsection \<open>The step methods of DPNetsModule\<close>

lemma steps_delegate:
  "DPNetsModule_training_step call self h batch batch_idx
     = DPNetsModule_base_step call self h batch batch_idx
   \<and> DPNetsModule_validation_step call self h batch batch_idx
     = DPNetsModule_base_step call self h batch batch_idx"
  by (simp add: DPNetsModule_training_step_def DPNetsModule_validation_step_def on_ok_def
      split: sum.splits)

text \<open>
  C5. On a batch with \<open>x_value\<close> and \<open>y_value\<close>, \<open>base_step\<close> calls \<open>model\<close> on
  \<open>{'x_value': batch['x_value']}\<close>, then \<open>model_2\<close> on \<open>{'x_value': batch['y_value']}\<close>
  (in the store the first call left), takes \<open>x_encoded\<close> from each output and returns
  \<open>{'loss': loss_fn(x_encoded, y_encoded)}\<close>; the hypotheses say that the two forward
  passes and the loss function return and that both outputs have the key \<open>x_encoded\<close>.
  \<open>training_step\<close> and \<open>validation_step\<close> return what \<open>base_step\<close> returns, on every
  input.
\<close>

theorem DPNetsModule_base_step_loss:
  assumes "map_of batch ''x_value'' = Some x" and "map_of batch ''y_value'' = Some y"
    and "call (objs h (model self)) [(''x_value'', x)] = Inr (model_output_x, ob1)"
    and "map_of model_output_x ''x_encoded'' = Some x_encoded"
    and "call (objs (h\<lparr>objs := (objs h)(model self := ob1)\<rparr>) (model_2 self)) [(''x_value'', y)]
           = Inr (model_output_y, ob2)"
    and "map_of model_output_y ''x_encoded'' = Some y_encoded"
    and "loss_fn self x_encoded y_encoded = Inr loss"
  shows "DPNetsModule_base_step call self h batch batch_idx
           = Inr ([(''loss'', loss)], h\<lparr>objs := (objs h)(model self := ob1, model_2 self := ob2)\<rparr>)
     \<and> DPNetsModule_training_step call self h batch batch_idx
           = DPNetsModule_base_step call self h batch batch_idx
     \<and> DPNetsModule_validation_step call self h batch batch_idx
           = DPNetsModule_base_step call self h batch batch_idx"
proof -
  from assms have "DPNetsModule_base_step call self h batch batch_idx
      = Inr ([(''loss'', loss)], h\<lparr>objs := (objs h)(model self := ob1, model_2 self := ob2)\<rparr>)"
    by (simp add: DPNetsModule_base_step_def getitem_def call_obj_def on_ok_def)
  with steps_delegate [of call self h batch batch_idx] show ?thesis by simp
qed

text \<open>
  A module with two networks, on a batch with \<open>x_value\<close> 3 and \<open>y_value\<close> 4: the
  encodings are 6 and 8, the loss is their difference.
\<close>

theorem DPNetsModule_base_step_loss_witness:
  "\<exists>self h1 h'.
      DPNetsModule_init example_class 0 example_optimizer_fn 2 example_loss_fn
        None (Some 3) (Some 4) (Some example_class) (Some 1) example_heap = Inr (self, h1)
    \<and> DPNetsModule_base_step example_call self h1 [(''x_value'', 3), (''y_value'', 4)] 0
        = Inr ([(''loss'', - 2)], h')
    \<and> DPNetsModule_training_step example_call self h1 [(''x_value'', 3), (''y_value'', 4)] 0
        = Inr ([(''loss'', - 2)], h')
    \<and> DPNetsModule_validation_step example_call self h1 [(''x_value'', 3), (''y_value'', 4)] 0
        = Inr ([(''loss'', - 2)], h')"
proof -
  have c0: "example_class (dicts example_heap 0) = Inr 1"
    and c1: "example_class (dicts example_heap 1) = Inr 1"
    by (simp_all add: example_class_def example_heap_def)
  from DPNetsModule_init_two [where mc = example_class and h = example_heap and mh = 0
      and cls = example_class and ?a2.0 = 1 and ofn = example_optimizer_fn and oh = 2
      and lf = example_loss_fn and sf = None and ?a4.0 = 3 and ?a5.0 = 4, OF c0 c1]
  obtain self :: "(int, nat, unit, int) DPNetsModule" and h1 where
    init: "DPNetsModule_init example_class 0 example_optimizer_fn 2 example_loss_fn
        None (Some 3) (Some 4) (Some example_class) (Some 1) example_heap = Inr (self, h1)"
    and self: "model self = 0" "model_2 self = Suc 0" "loss_fn self = example_loss_fn"
    and h1: "objs h1 0 = Suc 0" "objs h1 (Suc 0) = Suc 0"
    by (auto simp: example_heap_def)
  let ?batch = "[(''x_value'', 3), (''y_value'', 4 :: int)]"
  have "DPNetsModule_base_step example_call self h1 ?batch 0
           = Inr ([(''loss'', - 2)], h1\<lparr>objs := (objs h1)(model self := 3, model_2 self := 3)\<rparr>)
     \<and> DPNetsModule_training_step example_call self h1 ?batch 0
           = DPNetsModule_base_step example_call self h1 ?batch 0
     \<and> DPNetsModule_validation_step example_call self h1 ?batch 0
           = DPNetsModule_base_step example_call self h1 ?batch 0"
    by (rule DPNetsModule_base_step_loss [where x = 3 and y = 4 and x_encoded = 6
          and y_encoded = 8 and model_output_x = "[(''x_encoded'', 6)]"
          and model_output_y = "[(''x_encoded'', 8)]"])
      (simp_all add: self h1 example_call_def example_loss_fn_def)
  with init show ?thesis by auto
qed

lemma example_call_deterministic: "deterministic example_call"
  by (auto simp: deterministic_def example_call_def split: option.splits)

text \<open>
  C7. With \<open>model_2\<close> the same object as \<open>model\<close>, a deterministic network and a batch
  whose \<open>x_value\<close> and \<open>y_value\<close> are equal, both encodings are the same value \<open>e\<close> and
  \<open>base_step\<close> returns the loss \<open>loss_fn(e, e)\<close> (or raises what \<open>loss_fn(e, e)\<close>
  raises); so the loss is \<open>z\<close> whenever \<open>loss_fn(e, e)\<close> is \<open>z\<close>, zero for a distance.
\<close>

theorem DPNetsModule_base_step_shared_same_input:
  assumes "deterministic call" and "model_2 self = model self"
    and "map_of batch ''x_value'' = Some t" and "map_of batch ''y_value'' = Some t"
    and "call (objs h (model self)) [(''x_value'', t)] = Inr (out, ob1)"
    and "map_of out ''x_encoded'' = Some e"
  shows "(\<exists>h'. DPNetsModule_base_step call self h batch batch_idx
            = on_ok (loss_fn self e e) (\<lambda>loss. Inr ([(''loss'', loss)], h')))
     \<and> (\<forall>z. loss_fn self e e = Inr z \<longrightarrow>
          (\<exists>h'. DPNetsModule_base_step call self h batch batch_idx = Inr ([(''loss'', z)], h')))"
proof -
  from assms(1,5) have "map_sum id fst (call ob1 [(''x_value'', t)])
      = map_sum id fst (call (objs h (model self)) [(''x_value'', t)])"
    unfolding deterministic_def by blast
  with assms(5) obtain ob2 where second: "call ob1 [(''x_value'', t)] = Inr (out, ob2)"
    by (cases "call ob1 [(''x_value'', t)]") auto
  let ?h' = "h\<lparr>objs := (objs h)(model self := ob2)\<rparr>"
  from assms second have step: "DPNetsModule_base_step call self h batch batch_idx
      = on_ok (loss_fn self e e) (\<lambda>loss. Inr ([(''loss'', loss)], ?h'))"
    by (simp add: DPNetsModule_base_step_def getitem_def call_obj_def on_ok_def)
  then have "\<forall>z. loss_fn self e e = Inr z \<longrightarrow>
      DPNetsModule_base_step call self h batch batch_idx = Inr ([(''loss'', z)], ?h')"
    by (simp add: on_ok_def)
  with step show ?thesis by blast
qed

text \<open>
  The shared network on a batch with both values 3: both encodings are 6 and the loss
  is 0.
\<close>

theorem DPNetsModule_base_step_shared_same_input_witness:
  "deterministic example_call
   \<and> (\<exists>self h1 h'.
      DPNetsModule_init example_class 0 example_optimizer_fn 2 example_loss_fn
        None (Some 3) (Some 4) None (Some 1) example_heap = Inr (self, h1)
    \<and> model_2 self = model self
    \<and> DPNetsModule_base_step example_call self h1 [(''x_value'', 3), (''y_value'', 3)] 0
        = Inr ([(''loss'', 0)], h'))"
proof -
  have c0: "example_class (dicts example_heap 0) = Inr 1"
    by (simp add: example_class_def example_heap_def)
  from DPNetsModule_init_shared [where mc = example_class and h = example_heap and mh = 0
      and ofn = example_optimizer_fn and oh = 2 and lf = example_loss_fn and sf = None
      and ?a4.0 = 3 and ?a5.0 = 4 and ?a2.0 = 1, OF c0]
  obtain self :: "(int, nat, unit, int) DPNetsModule" and h1 where
    init: "DPNetsModule_init example_class 0 example_optimizer_fn 2 example_loss_fn
        None (Some 3) (Some 4) None (Some 1) example_heap = Inr (self, h1)"
    and self: "model self = 0" "model_2 self = 0" "loss_fn self = example_loss_fn"
    and h1: "objs h1 0 = Suc 0"
    by (auto simp: example_heap_def)
  let ?batch = "[(''x_value'', 3), (''y_value'', 3 :: int)]"
  have "(\<exists>h'. DPNetsModule_base_step example_call self h1 ?batch 0
            = on_ok (loss_fn self 6 6) (\<lambda>loss. Inr ([(''loss'', loss)], h')))
     \<and> (\<forall>z. loss_fn self 6 6 = Inr z \<longrightarrow>
          (\<exists>h'. DPNetsModule_base_step example_call self h1 ?batch 0 = Inr ([(''loss'', z)], h')))"
    by (rule DPNetsModule_base_step_shared_same_input [where t = 3
          and out = "[(''x_encoded'', 6)]" and ?ob1.0 = 3])
      (simp_all add: example_call_deterministic self h1 example_call_def)
  then have "\<exists>h'. DPNetsModule_base_step example_call self h1 ?batch 0 = Inr ([(''loss'', 0)], h')"
    by (simp add: self example_loss_fn_def)
  with init self example_call_deterministic show ?thesis by auto
qed

subsection \<open>The two references to the networks\<close>

lemma DPNetsModule_run_module:
  "DPNetsModule_run call s s' \<Longrightarrow> fst s' = fst s"
  by (induction rule: DPNetsModule_run.induct) simp_all

lemma DPNetsModule_init_models:
  assumes "DPNetsModule_init mc mh ofn oh lf sf sh sc mc2 mh2 h = Inr (m, h')"
  shows "model m = obj_count h
     \<and> (mc2 = None \<longrightarrow> model_2 m = model m)
     \<and> (\<forall>cls. mc2 = Some cls \<longrightarrow> model_2 m = Suc (obj_count h)
           \<and> (\<exists>a2. mh2 = Some a2 \<and> cls (dicts h a2) = Inr (objs h' (model_2 m))))"
  using assms unfolding DPNetsModule_init_def for_items_update for_items_update_plain
  by (auto simp: on_ok_def items_def kwargs_def alloc_obj_def
      split: option.splits sum.splits prod.splits)

text \<open>
  C2. After construction and any sequence of method calls: if \<open>model_class_2\<close> was
  \<open>None\<close>, \<open>model_2\<close> and \<open>model\<close> are the same reference; if a class was given, they
  are different references, \<open>model_2\<close> is an address that was free before construction,
  and the object constructed there is what the class returned on the entries of
  \<open>model_hyperparameters_2\<close>.
\<close>

theorem model_2_identity:
  assumes "DPNetsModule_init mc mh ofn oh lf sf sh sc mc2 mh2 h0 = Inr (self0, h1)"
    and "DPNetsModule_run call (self0, h1) (self, h)"
  shows "(mc2 = None \<longrightarrow> model_2 self = model self)
     \<and> (\<forall>cls. mc2 = Some cls \<longrightarrow>
          model_2 self \<noteq> model self
        \<and> obj_count h0 \<le> model_2 self
        \<and> (\<exists>a2. mh2 = Some a2 \<and> cls (dicts h0 a2) = Inr (objs h1 (model_2 self))))"
proof -
  from DPNetsModule_run_module [OF assms(2)] have "self = self0" by simp
  with DPNetsModule_init_models [OF assms(1)] show ?thesis by auto
qed

text \<open>
  One module built without and one with a second model class, each after one step.
\<close>

theorem model_2_identity_witness:
  "(\<exists>self h1 h.
      DPNetsModule_init example_class 0 example_optimizer_fn 2 example_loss_fn
        None (Some 3) (Some 4) None (Some 1) example_heap = Inr (self, h1)
    \<and> DPNetsModule_training_step example_call self h1 [(''x_value'', 3), (''y_value'', 3)] 0
        = Inr ([(''loss'', 0)], h)
    \<and> DPNetsModule_run example_call (self, h1) (self, h)
    \<and> model_2 self = model self)
   \<and> (\<exists>self h1 h.
      DPNetsModule_init example_class 0 example_optimizer_fn 2 example_loss_fn
        None (Some 3) (Some 4) (Some example_class) (Some 1) example_heap = Inr (self, h1)
    \<and> DPNetsModule_validation_step example_call self h1 [(''x_value'', 3), (''y_value'', 3)] 0
        = Inr ([(''loss'', 0)], h)
    \<and> DPNetsModule_run example_call (self, h1) (self, h)
    \<and> model_2 self \<noteq> model self \<and> objs h1 (model_2 self) = 1)"
proof (rule conjI)
  have c0: "example_class (dicts example_heap 0) = Inr 1"
    by (simp add: example_class_def example_heap_def)
  from DPNetsModule_init_shared [where mc = example_class and h = example_heap and mh = 0
      and ofn = example_optimizer_fn and oh = 2 and lf = example_loss_fn and sf = None
      and ?a4.0 = 3 and ?a5.0 = 4 and ?a2.0 = 1, OF c0]
  obtain self :: "(int, nat, unit, int) DPNetsModule" and h1 where
    init: "DPNetsModule_init example_class 0 example_optimizer_fn 2 example_loss_fn
        None (Some 3) (Some 4) None (Some 1) example_heap = Inr (self, h1)"
    and self: "model self = 0" "model_2 self = 0" "loss_fn self = example_loss_fn"
    and h1: "objs h1 0 = Suc 0"
    by (auto simp: example_heap_def)
  let ?batch = "[(''x_value'', 3), (''y_value'', 3 :: int)]"
  have "\<exists>h. DPNetsModule_training_step example_call self h1 ?batch 0 = Inr ([(''loss'', 0)], h)"
    by (simp add: DPNetsModule_training_step_def DPNetsModule_base_step_def getitem_def
        call_obj_def on_ok_def self h1 example_call_def example_loss_fn_def)
  then obtain h where
    step: "DPNetsModule_training_step example_call self h1 ?batch 0 = Inr ([(''loss'', 0)], h)" ..
  have run: "DPNetsModule_run example_call (self, h1) (self, h)"
    by (rule DPNetsModule_run.training_step [OF DPNetsModule_run.constructed step])
  from model_2_identity [OF init run] have "model_2 self = model self" by simp
  with init step run show "\<exists>self h1 h.
      DPNetsModule_init example_class 0 example_optimizer_fn 2 example_loss_fn
        None (Some 3) (Some 4) None (Some 1) example_heap = Inr (self, h1)
    \<and> DPNetsModule_training_step example_call self h1 [(''x_value'', 3), (''y_value'', 3)] 0
        = Inr ([(''loss'', 0)], h)
    \<and> DPNetsModule_run example_call (self, h1) (self, h)
    \<and> model_2 self = model self"
    by blast
next
  have c0: "example_class (dicts example_heap 0) = Inr 1"
    and c1: "example_class (dicts example_heap 1) = Inr 1"
    by (simp_all add: example_class_def example_heap_def)
  from DPNetsModule_init_two [where mc = example_class and h = example_heap and mh = 0
      and cls = example_class and ?a2.0 = 1 and ofn = example_optimizer_fn and oh = 2
      and lf = example_loss_fn and sf = None and ?a4.0 = 3 and ?a5.0 = 4, OF c0 c1]
  obtain self :: "(int, nat, unit, int) DPNetsModule" and h1 where
    init: "DPNetsModule_init example_class 0 example_optimizer_fn 2 example_loss_fn
        None (Some 3) (Some 4) (Some example_class) (Some 1) example_heap = Inr (self, h1)"
    and self: "model self = 0" "model_2 self = Suc 0" "loss_fn self = example_loss_fn"
    and h1: "objs h1 0 = Suc 0" "objs h1 (Suc 0) = Suc 0"
    by (auto simp: example_heap_def)
  let ?batch = "[(''x_value'', 3), (''y_value'', 3 :: int)]"
  have "\<exists>h. DPNetsModule_validation_step example_call self h1 ?batch 0 = Inr ([(''loss'', 0)], h)"
    by (simp add: DPNetsModule_validation_step_def DPNetsModule_base_step_def getitem_def
        call_obj_def on_ok_def self h1 example_call_def example_loss_fn_def)
  then obtain h where
    step: "DPNetsModule_validation_step example_call self h1 ?batch 0 = Inr ([(''loss'', 0)], h)" ..
  have run: "DPNetsModule_run example_call (self, h1) (self, h)"
    by (rule DPNetsModule_run.validation_step [OF DPNetsModule_run.constructed step])
  from model_2_identity [OF init run] have "model_2 self \<noteq> model self"
    by simp
  with init step run h1 self show "\<exists>self h1 h.
      DPNetsModule_init example_class 0 example_optimizer_fn 2 example_loss_fn
        None (Some 3) (Some 4) (Some example_class) (Some 1) example_heap = Inr (self, h1)
    \<and> DPNetsModule_validation_step example_call self h1 [(''x_value'', 3), (''y_value'', 3)] 0
        = Inr ([(''loss'', 0)], h)
    \<and> DPNetsModule_run example_call (self, h1) (self, h)
    \<and> model_2 self \<noteq> model self \<and> objs h1 (model_2 self) = 1"
    by auto
qed

subsection \<open>Concatenated feature maps\<close>











end
